theory Spec2Isabelle
  imports Complex_Main
begin

section \<open>JSON values, Go errors and run-time panics\<close>

text \<open>
  A decoded JSON document, as \<^verbatim>\<open>encoding/json\<close> hands it to the program in an
  \<^verbatim>\<open>interface{}\<close>: \<^verbatim>\<open>nil\<close>, \<^verbatim>\<open>bool\<close>, \<^verbatim>\<open>float64\<close>, \<^verbatim>\<open>string\<close>,
  \<^verbatim>\<open>[]interface{}\<close> or \<^verbatim>\<open>map[string]interface{}\<close>. A byte slice holding JSON text
  (\<^verbatim>\<open>json.RawMessage\<close>, \<^verbatim>\<open>[]byte\<close>) is represented by the value it encodes, so the
  branch "the bytes are not JSON" of \<^verbatim>\<open>json.Unmarshal\<close> does not appear. Numbers are
  the rationals the literals denote (the rounding of \<^verbatim>\<open>float64\<close> is not modelled). An
  object is an association list; a Go map iterates in no fixed order, the model iterates
  in list order, and \<open>map_of\<close> is the lookup.
\<close>

datatype json =
    JNull
  | JBool bool
  | JNum rat
  | JStr string
  | JArr "json list"
  | JObj "(string \<times> json) list"

text \<open>
  The error values of \<^verbatim>\<open>errors.go\<close> and of the \<^verbatim>\<open>jsonwalker\<close> package; \<open>NumError\<close> is
  \<^verbatim>\<open>strconv.NumError\<close> (function, input, cause), \<open>Wrapped\<close> is \<^verbatim>\<open>errors.Wrap\<close> and
  \<open>ErrorString\<close> is \<^verbatim>\<open>errors.New\<close> or an error of a library whose text is not modelled.
\<close>

datatype error =
    KeywordValidationError string string
  | SchemaValidationError string string
  | SchemaCompilationError string string
  | InvalidReferenceError string string string
  | JsonPointerSyntaxError string string
  | InvalidJsonPointerError string string
  | MissingJsonTokenError string
  | NumError string string string
  | Wrapped error string
  | ErrorString string

text \<open>
  A Go call either returns or panics (index out of range, nil dereference); nothing in the
  repository recovers, so a panic ends the run. Functions that return \<^verbatim>\<open>error\<close> return
  \<open>error option\<close>: \<open>None\<close> is \<^verbatim>\<open>nil\<close>.
\<close>

datatype 'a outcome = Returns 'a | Panics string

definition dq :: string where
  "dq = [CHR 0x22]"

definition sq :: string where
  "sq = [CHR 0x27]"

section \<open>Library functions used by the code\<close>

text \<open>\<^verbatim>\<open>strings.Split(s, sep)\<close> for a one-byte separator: never empty, \<open>[s]\<close> without a separator.\<close>

fun Split :: "string \<Rightarrow> char \<Rightarrow> string list" where
  "Split [] sep = [[]]"
| "Split (c # cs) sep =
     (if c = sep then [] # Split cs sep
      else (case Split cs sep of
              [] \<Rightarrow> [[c]]
            | t # ts \<Rightarrow> (c # t) # ts))"

text \<open>\<^verbatim>\<open>strings.Join(elems, sep)\<close>.\<close>

fun Join :: "string list \<Rightarrow> string \<Rightarrow> string" where
  "Join [] sep = []"
| "Join [x] sep = x"
| "Join (x # y # ys) sep = x @ sep @ Join (y # ys) sep"

text \<open>\<^verbatim>\<open>strings.Contains(s, c)\<close> for a one-byte substring.\<close>

definition strings_Contains :: "string \<Rightarrow> char \<Rightarrow> bool" where
  "strings_Contains s c = (c \<in> set s)"

definition isDigit :: "char \<Rightarrow> bool" where
  "isDigit c = (48 \<le> (of_char c :: nat) \<and> (of_char c :: nat) \<le> 57)"

definition digitVal :: "char \<Rightarrow> int" where
  "digitVal c = of_char c - 48"

text \<open>
  \<^verbatim>\<open>strconv.Atoi\<close> on a 64-bit platform: an optional sign, then at least one decimal
  digit; a value outside \<^verbatim>\<open>int64\<close> is a range error.
\<close>

definition Atoi :: "string \<Rightarrow> error + int" where
  "Atoi s =
     (let neg = (s \<noteq> [] \<and> hd s = CHR ''-'');
          ds = (if s \<noteq> [] \<and> (hd s = CHR ''-'' \<or> hd s = CHR ''+'') then tl s else s)
      in if ds = [] \<or> \<not> list_all isDigit ds then Inl (NumError ''Atoi'' s ''invalid syntax'')
         else (let n = foldl (\<lambda>a c. 10 * a + digitVal c) 0 ds;
                   v = (if neg then - n else n)
               in if v < - (2 ^ 63) \<or> 2 ^ 63 \<le> v
                  then Inl (NumError ''Atoi'' s ''value out of range'')
                  else Inr v))"

text \<open>\<^verbatim>\<open>strconv.Itoa\<close>.\<close>

fun natDigits :: "nat \<Rightarrow> string" where
  "natDigits n =
     (if n < 10 then [''0123456789'' ! n]
      else natDigits (n div 10) @ [''0123456789'' ! (n mod 10)])"

declare natDigits.simps [simp del]

definition Itoa :: "int \<Rightarrow> string" where
  "Itoa i = (if i < 0 then CHR ''-'' # natDigits (nat (- i)) else natDigits (nat i))"

text \<open>The \<^verbatim>\<open>Error()\<close> methods of \<^verbatim>\<open>errors.go\<close> and of the \<^verbatim>\<open>jsonwalker\<close> errors.\<close>

fun Error :: "error \<Rightarrow> string" where
  "Error (KeywordValidationError keyword reason) =
     dq @ keyword @ dq @ '' validation failed, reason: '' @ reason"
| "Error (SchemaValidationError path err) =
     ''validation failed in path '' @ (if path = [] then ''/'' else path) @ '': '' @ err"
| "Error (SchemaCompilationError path err) =
     ''schema compilation failed in path '' @ path @ '': '' @ err"
| "Error (InvalidReferenceError schemaURI fragment err) =
     err @ '': schema id - '' @ schemaURI @ '', fragment - '' @
       (if fragment \<noteq> [] then fragment else ''/'')"
| "Error (JsonPointerSyntaxError err path) =
     ''JsonPointer syntax error for '' @ dq @ path @ dq @ '' - '' @ err"
| "Error (InvalidJsonPointerError path reason) =
     ''invalid json pointer '' @ dq @ path @ dq @ '': '' @ reason"
| "Error (MissingJsonTokenError token) = ''token '' @ dq @ token @ dq @ '' is missing''"
| "Error (NumError fn num err) = ''strconv.'' @ fn @ '': parsing '' @ dq @ num @ dq @ '': '' @ err"
| "Error (Wrapped err msg) = msg @ '': '' @ Error err"
| "Error (ErrorString s) = s"

section \<open>The JSON-Pointer evaluator (package jsonwalker)\<close>

type_synonym JsonPointer = "string list"

definition NewJsonPointer :: "string \<Rightarrow> error + JsonPointer" where
  "NewJsonPointer path =
     (if length path = 0 \<or> path = ''/'' then Inr []
      else if hd path \<noteq> CHR ''/''
      then Inl (JsonPointerSyntaxError
                 (''first character of non-empty reference must be '' @ sq @ ''/'' @ sq) path)
      else Inr (tl (Split path (CHR ''/''))))"

text \<open>
  \<^verbatim>\<open>evaluateToken\<close>: the array case converts the token with \<^verbatim>\<open>strconv.Atoi\<close> and reads
  \<^verbatim>\<open>v[index]\<close> with no bounds check; Go panics on an index outside the slice.
\<close>

definition evaluateToken :: "string \<Rightarrow> json \<Rightarrow> (error + json) outcome" where
  "evaluateToken token jsonData =
     (case jsonData of
        JObj v \<Rightarrow>
          (case map_of v token of
             Some prop \<Rightarrow> Returns (Inr prop)
           | None \<Rightarrow> Returns (Inl (MissingJsonTokenError token)))
      | JArr v \<Rightarrow>
          (case Atoi token of
             Inl err \<Rightarrow> Returns (Inl err)
           | Inr index \<Rightarrow>
               if 0 \<le> index \<and> index < int (length v) then Returns (Inr (v ! nat index))
               else Panics ''index out of range'')
      | _ \<Rightarrow> Returns (Inl (MissingJsonTokenError token)))"

text \<open>The loop of \<^verbatim>\<open>Evaluate\<close> over the tokens; \<open>jp\<close> is the whole pointer, for the error.\<close>

fun evaluateTokens :: "JsonPointer \<Rightarrow> JsonPointer \<Rightarrow> json \<Rightarrow> (error + json) outcome" where
  "evaluateTokens jp [] data = Returns (Inr data)"
| "evaluateTokens jp (token # rest) data =
     (case evaluateToken token data of
        Panics m \<Rightarrow> Panics m
      | Returns (Inl err) \<Rightarrow>
          Returns (Inl (InvalidJsonPointerError (''/'' @ Join jp ''/'') (Error err)))
      | Returns (Inr data') \<Rightarrow> evaluateTokens jp rest data')"

definition Evaluate :: "JsonPointer \<Rightarrow> error + json \<Rightarrow> (error + json) outcome" where
  "Evaluate jp jsonData =
     (case jsonData of
        Inl err \<Rightarrow> Returns (Inl err)
      | Inr data \<Rightarrow> if length jp = 0 then Returns (Inr data) else evaluateTokens jp jp data)"

section \<open>Format checkers for JSON pointers (package formatchecker)\<close>

text \<open>
  \<^verbatim>\<open>IsValidJSONPointer\<close> matches the text after the leading slash against the patterns
  \<^verbatim>\<open>\~[^01]\<close> (a tilde followed by a byte other than 0 and 1) and \<^verbatim>\<open>\~$\<close> (a tilde
  at the end).
\<close>

fun unescapedTilda :: "string \<Rightarrow> bool" where
  "unescapedTilda (a # b # cs) =
     ((a = CHR ''~'' \<and> b \<noteq> CHR ''0'' \<and> b \<noteq> CHR ''1'') \<or> unescapedTilda (b # cs))"
| "unescapedTilda _ = False"

definition endingTilda :: "string \<Rightarrow> bool" where
  "endingTilda s = (s \<noteq> [] \<and> last s = CHR ''~'')"

definition IsValidJSONPointer :: "string \<Rightarrow> error option" where
  "IsValidJSONPointer jsonPointer =
     (if length jsonPointer = 0 then None
      else if hd jsonPointer \<noteq> CHR ''/''
      then Some (ErrorString
             (''non-empty references must begin with a '' @ sq @ ''/'' @ sq @ '' character: '' @
              jsonPointer))
      else (let str = tl jsonPointer
            in if unescapedTilda str then Some (ErrorString ''unescaped tilda error'')
               else if endingTilda str then Some (ErrorString ''ending tilda error'')
               else None))"

text \<open>
  \<^verbatim>\<open>IsValidRelJSONPointer\<close>. The guard \<^verbatim>\<open>err != nil || i < 0\<close> returns \<^verbatim>\<open>err\<close>, which
  is \<^verbatim>\<open>nil\<close> when the prefix parsed and only \<^verbatim>\<open>i < 0\<close> holds.
\<close>

definition IsValidRelJSONPointer :: "string \<Rightarrow> error option" where
  "IsValidRelJSONPointer relJSONPointer =
     (let parts0 = Split relJSONPointer (CHR ''/'');
          parts = (if length parts0 = 1 then Split relJSONPointer (CHR ''#'') else parts0)
      in case Atoi (hd parts) of
           Inl err \<Rightarrow> Some err
         | Inr i \<Rightarrow>
             if i < 0 then None
             else (let str = drop (length (hd parts)) relJSONPointer
                   in if length str > 0 \<and> hd str = CHR ''#'' then None
                      else IsValidJSONPointer str))"

section \<open>Schema nodes\<close>


record scalars =
  RejectAll :: bool
  Ref :: "string option"
  Id' :: "string option"
  Type :: "json option"
  Enum :: "json list option"
  Const :: "json option"
  Required :: "string list option"
  Items :: "json option"
  MinItems :: "int option"
  MaxItems :: "int option"
  UniqueItems :: "bool option"
  MinLength :: "int option"
  MaxLength :: "int option"
  Pattern :: "string option"
  Format :: "string option"
  MultipleOf :: "rat option"
  Minimum :: "rat option"
  Maximum :: "rat option"
  ExclusiveMinimum :: "rat option"
  ExclusiveMaximum :: "rat option"
  MinProperties :: "int option"
  MaxProperties :: "int option"

datatype JsonSchema = Node
  (scalars: scalars)
  (Definitions: "(string \<times> JsonSchema option) list option")
  (Properties: "(string \<times> JsonSchema option) list option")
  (AdditionalProperties: "JsonSchema option")
  (PropertyNames: "JsonSchema option")
  (Dependencies: "(string \<times> (json + JsonSchema)) list option")
  (PatternProperties: "(string \<times> JsonSchema option) list option")
  (Contains: "JsonSchema option")
  (AdditionalItems: "JsonSchema option")
  (AnyOf: "JsonSchema option list option")
  (AllOf: "JsonSchema option list option")
  (OneOf: "JsonSchema option list option")
  (Not': "JsonSchema option")
  (If': "JsonSchema option")
  (Then: "JsonSchema option")
  (Else: "JsonSchema option")
  (connected: bool)


definition bindE :: "error + 'a \<Rightarrow> ('a \<Rightarrow> error + 'b) \<Rightarrow> error + 'b" where
  "bindE m f = (case m of Inl e \<Rightarrow> Inl e | Inr x \<Rightarrow> f x)"

definition unmarshalTypeError :: error where
  "unmarshalTypeError = ErrorString ''json: cannot unmarshal value into Go struct field''"

definition decodeBool :: "json option \<Rightarrow> error + bool option" where
  "decodeBool v =
     (case v of
        None \<Rightarrow> Inr None
      | Some JNull \<Rightarrow> Inr None
      | Some (JBool b) \<Rightarrow> Inr (Some b)
      | Some _ \<Rightarrow> Inl unmarshalTypeError)"

definition decodeString :: "json option \<Rightarrow> error + string option" where
  "decodeString v =
     (case v of
        None \<Rightarrow> Inr None
      | Some JNull \<Rightarrow> Inr None
      | Some (JStr s) \<Rightarrow> Inr (Some s)
      | Some _ \<Rightarrow> Inl unmarshalTypeError)"

definition decodeInt :: "json option \<Rightarrow> error + int option" where
  "decodeInt v =
     (case v of
        None \<Rightarrow> Inr None
      | Some JNull \<Rightarrow> Inr None
      | Some (JNum r) \<Rightarrow>
          if of_int \<lfloor>r\<rfloor> = r \<and> - (2 ^ 63) \<le> r \<and> r < 2 ^ 63 then Inr (Some \<lfloor>r\<rfloor>)
          else Inl unmarshalTypeError
      | Some _ \<Rightarrow> Inl unmarshalTypeError)"

definition decodeFloat :: "json option \<Rightarrow> error + rat option" where
  "decodeFloat v =
     (case v of
        None \<Rightarrow> Inr None
      | Some JNull \<Rightarrow> Inr None
      | Some (JNum r) \<Rightarrow> Inr (Some r)
      | Some _ \<Rightarrow> Inl unmarshalTypeError)"

definition decodeRaw :: "json option \<Rightarrow> error + json option" where
  "decodeRaw v =
     (case v of
        None \<Rightarrow> Inr None
      | Some JNull \<Rightarrow> Inr None
      | Some j \<Rightarrow> Inr (Some j))"

definition decodeArray :: "json option \<Rightarrow> error + json list option" where
  "decodeArray v =
     (case v of
        None \<Rightarrow> Inr None
      | Some JNull \<Rightarrow> Inr None
      | Some (JArr xs) \<Rightarrow> Inr (Some xs)
      | Some _ \<Rightarrow> Inl unmarshalTypeError)"

fun decodeStrings :: "json list \<Rightarrow> error + string list" where
  "decodeStrings [] = Inr []"
| "decodeStrings (JStr s # xs) = bindE (decodeStrings xs) (\<lambda>ss. Inr (s # ss))"
| "decodeStrings (JNull # xs) = bindE (decodeStrings xs) (\<lambda>ss. Inr ([] # ss))"
| "decodeStrings (_ # xs) = Inl unmarshalTypeError"

definition decodeStringArray :: "json option \<Rightarrow> error + string list option" where
  "decodeStringArray v =
     (case v of
        None \<Rightarrow> Inr None
      | Some JNull \<Rightarrow> Inr None
      | Some (JArr xs) \<Rightarrow> bindE (decodeStrings xs) (\<lambda>ss. Inr (Some ss))
      | Some _ \<Rightarrow> Inl unmarshalTypeError)"

definition decodeDependencies ::
  "json option \<Rightarrow> error + (string \<times> (json + JsonSchema)) list option" where
  "decodeDependencies v =
     (case v of
        None \<Rightarrow> Inr None
      | Some JNull \<Rightarrow> Inr None
      | Some (JObj ds) \<Rightarrow> Inr (Some (map (\<lambda>(k, d). (k, Inl d)) ds))
      | Some _ \<Rightarrow> Inl unmarshalTypeError)"

definition checkAnnotations :: "(string \<times> json) list \<Rightarrow> error + unit" where
  "checkAnnotations kvs =
     bindE (decodeString (map_of kvs ''$schema'')) (\<lambda>_.
     bindE (decodeString (map_of kvs ''$comment'')) (\<lambda>_.
     bindE (decodeString (map_of kvs ''title'')) (\<lambda>_.
     bindE (decodeString (map_of kvs ''description'')) (\<lambda>_.
     bindE (decodeArray (map_of kvs ''examples'')) (\<lambda>_.
     bindE (decodeString (map_of kvs ''contentMediaType'')) (\<lambda>_.
     bindE (decodeString (map_of kvs ''contentEncoding'')) (\<lambda>_.
     bindE (decodeBool (map_of kvs ''readOnly'')) (\<lambda>_.
     bindE (decodeBool (map_of kvs ''writeOnly'')) (\<lambda>_. Inr ())))))))))"

definition decodeScalars :: "(string \<times> json) list \<Rightarrow> error + scalars" where
  "decodeScalars kvs =
     bindE (checkAnnotations kvs) (\<lambda>_.
     bindE (decodeBool (map_of kvs ''rejectAll'')) (\<lambda>rejectAll.
     bindE (decodeString (map_of kvs ''$ref'')) (\<lambda>ref.
     bindE (decodeString (map_of kvs ''$id'')) (\<lambda>id.
     bindE (decodeRaw (map_of kvs ''type'')) (\<lambda>type.
     bindE (decodeArray (map_of kvs ''enum'')) (\<lambda>enum.
     bindE (decodeRaw (map_of kvs ''const'')) (\<lambda>const.
     bindE (decodeStringArray (map_of kvs ''required'')) (\<lambda>required.
     bindE (decodeInt (map_of kvs ''minItems'')) (\<lambda>minItems.
     bindE (decodeInt (map_of kvs ''maxItems'')) (\<lambda>maxItems.
     bindE (decodeBool (map_of kvs ''uniqueItems'')) (\<lambda>uniqueItems.
     bindE (decodeInt (map_of kvs ''minLength'')) (\<lambda>minLength.
     bindE (decodeInt (map_of kvs ''maxLength'')) (\<lambda>maxLength.
     bindE (decodeString (map_of kvs ''pattern'')) (\<lambda>pattern.
     bindE (decodeString (map_of kvs ''format'')) (\<lambda>format.
     bindE (decodeFloat (map_of kvs ''multipleOf'')) (\<lambda>multipleOf.
     bindE (decodeFloat (map_of kvs ''minimum'')) (\<lambda>minimum.
     bindE (decodeFloat (map_of kvs ''maximum'')) (\<lambda>maximum.
     bindE (decodeFloat (map_of kvs ''exclusiveMinimum'')) (\<lambda>exclusiveMinimum.
     bindE (decodeFloat (map_of kvs ''exclusiveMaximum'')) (\<lambda>exclusiveMaximum.
     bindE (decodeInt (map_of kvs ''minProperties'')) (\<lambda>minProperties.
     bindE (decodeInt (map_of kvs ''maxProperties'')) (\<lambda>maxProperties.
     Inr \<lparr>RejectAll = (rejectAll = Some True), Ref = ref, Id' = id, Type = type,
          Enum = enum, Const = const, Required = required, Items = map_of kvs ''items'',
          MinItems = minItems, MaxItems = maxItems, UniqueItems = uniqueItems,
          MinLength = minLength, MaxLength = maxLength, Pattern = pattern, Format = format,
          MultipleOf = multipleOf, Minimum = minimum, Maximum = maximum,
          ExclusiveMinimum = exclusiveMinimum, ExclusiveMaximum = exclusiveMaximum,
          MinProperties = minProperties, MaxProperties = maxProperties\<rparr>))))))))))))))))))))))"

definition decodeSchemaPtr ::
  "(json \<Rightarrow> error + JsonSchema) \<Rightarrow> json option \<Rightarrow> error + JsonSchema option" where
  "decodeSchemaPtr f v =
     (case v of
        None \<Rightarrow> Inr None
      | Some JNull \<Rightarrow> Inr None
      | Some j \<Rightarrow> bindE (f j) (\<lambda>s. Inr (Some s)))"

fun decodeSchemaEntries ::
  "(json \<Rightarrow> error + JsonSchema) \<Rightarrow> (string \<times> json) list \<Rightarrow>
   error + (string \<times> JsonSchema option) list" where
  "decodeSchemaEntries f [] = Inr []"
| "decodeSchemaEntries f ((k, j) # ps) =
     bindE (decodeSchemaPtr f (Some j)) (\<lambda>s.
     bindE (decodeSchemaEntries f ps) (\<lambda>ss. Inr ((k, s) # ss)))"

definition decodeSchemaMap ::
  "(json \<Rightarrow> error + JsonSchema) \<Rightarrow> json option \<Rightarrow>
   error + (string \<times> JsonSchema option) list option" where
  "decodeSchemaMap f v =
     (case v of
        None \<Rightarrow> Inr None
      | Some JNull \<Rightarrow> Inr None
      | Some (JObj ps) \<Rightarrow> bindE (decodeSchemaEntries f ps) (\<lambda>ss. Inr (Some ss))
      | Some _ \<Rightarrow> Inl unmarshalTypeError)"

fun decodeSchemaElems ::
  "(json \<Rightarrow> error + JsonSchema) \<Rightarrow> json list \<Rightarrow> error + JsonSchema option list" where
  "decodeSchemaElems f [] = Inr []"
| "decodeSchemaElems f (j # js) =
     bindE (decodeSchemaPtr f (Some j)) (\<lambda>s.
     bindE (decodeSchemaElems f js) (\<lambda>ss. Inr (s # ss)))"

definition decodeSchemaList ::
  "(json \<Rightarrow> error + JsonSchema) \<Rightarrow> json option \<Rightarrow> error + JsonSchema option list option" where
  "decodeSchemaList f v =
     (case v of
        None \<Rightarrow> Inr None
      | Some JNull \<Rightarrow> Inr None
      | Some (JArr js) \<Rightarrow> bindE (decodeSchemaElems f js) (\<lambda>ss. Inr (Some ss))
      | Some _ \<Rightarrow> Inl unmarshalTypeError)"

lemma decodeSchemaPtr_cong [fundef_cong]:
  "v = v' \<Longrightarrow> (\<And>j. v' = Some j \<Longrightarrow> f j = g j) \<Longrightarrow> decodeSchemaPtr f v = decodeSchemaPtr g v'"
  by (auto simp: decodeSchemaPtr_def split: option.splits json.splits)

lemma decodeSchemaEntries_eq:
  "(\<And>k j. (k, j) \<in> set ps \<Longrightarrow> f j = g j) \<Longrightarrow>
   decodeSchemaEntries f ps = decodeSchemaEntries g ps"
proof (induction ps)
  case Nil
  then show ?case by simp
next
  case (Cons p ps)
  obtain k j where p: "p = (k, j)" by (cases p)
  have fg: "decodeSchemaPtr f (Some j) = decodeSchemaPtr g (Some j)"
    by (rule decodeSchemaPtr_cong) (use Cons.prems[of k j] in \<open>simp_all add: p\<close>)
  have "decodeSchemaEntries f ps = decodeSchemaEntries g ps"
    using Cons.prems by (intro Cons.IH) auto
  with fg show ?case
    by (simp add: p)
qed

lemma decodeSchemaEntries_cong [fundef_cong]:
  "ps = ps' \<Longrightarrow> (\<And>k j. (k, j) \<in> set ps' \<Longrightarrow> f j = g j) \<Longrightarrow>
   decodeSchemaEntries f ps = decodeSchemaEntries g ps'"
  using decodeSchemaEntries_eq[of ps' f g] by simp

lemma decodeSchemaMap_cong [fundef_cong]:
  "v = v' \<Longrightarrow> (\<And>ps k j. v' = Some (JObj ps) \<Longrightarrow> (k, j) \<in> set ps \<Longrightarrow> f j = g j) \<Longrightarrow>
   decodeSchemaMap f v = decodeSchemaMap g v'"
  unfolding decodeSchemaMap_def
  by (auto split: option.splits json.splits intro!: arg_cong2[where f=bindE] decodeSchemaEntries_cong)

lemma decodeSchemaElems_eq:
  "(\<And>j. j \<in> set js \<Longrightarrow> f j = g j) \<Longrightarrow> decodeSchemaElems f js = decodeSchemaElems g js"
proof (induction js)
  case Nil
  then show ?case by simp
next
  case (Cons j js)
  have fg: "decodeSchemaPtr f (Some j) = decodeSchemaPtr g (Some j)"
    by (rule decodeSchemaPtr_cong) (use Cons.prems[of j] in simp_all)
  have "decodeSchemaElems f js = decodeSchemaElems g js"
    using Cons.prems by (intro Cons.IH) auto
  with fg show ?case
    by simp
qed

lemma decodeSchemaElems_cong [fundef_cong]:
  "js = js' \<Longrightarrow> (\<And>j. j \<in> set js' \<Longrightarrow> f j = g j) \<Longrightarrow>
   decodeSchemaElems f js = decodeSchemaElems g js'"
  using decodeSchemaElems_eq[of js' f g] by simp

lemma decodeSchemaList_cong [fundef_cong]:
  "v = v' \<Longrightarrow> (\<And>js j. v' = Some (JArr js) \<Longrightarrow> j \<in> set js \<Longrightarrow> f j = g j) \<Longrightarrow>
   decodeSchemaList f v = decodeSchemaList g v'"
  unfolding decodeSchemaList_def
  by (auto split: option.splits json.splits intro!: arg_cong2[where f=bindE] decodeSchemaElems_cong)

lemma size_entry:
  "(k, v::json) \<in> set kvs \<Longrightarrow> size v < size (JObj kvs)"
  by (induction kvs) auto

lemma size_map_of:
  "map_of kvs k = Some (v::json) \<Longrightarrow> size v < size (JObj kvs)"
  using size_entry[of k v kvs] by (simp add: map_of_SomeD)

lemma size_elem:
  "(v::json) \<in> set vs \<Longrightarrow> size v < size (JArr vs)"
  by (induction vs) auto

definition emptyScalars :: scalars where
  "emptyScalars =
     \<lparr>RejectAll = False, Ref = None, Id' = None, Type = None, Enum = None, Const = None,
      Required = None, Items = None, MinItems = None, MaxItems = None, UniqueItems = None,
      MinLength = None, MaxLength = None, Pattern = None, Format = None, MultipleOf = None,
      Minimum = None, Maximum = None, ExclusiveMinimum = None, ExclusiveMaximum = None,
      MinProperties = None, MaxProperties = None\<rparr>"

definition emptySchema :: JsonSchema where
  "emptySchema =
     Node emptyScalars None None None None None None None None None None None None None
       None None False"

definition rejectAllSchema :: JsonSchema where
  "rejectAllSchema =
     Node (emptyScalars\<lparr>RejectAll := True\<rparr>) None None None None None None None None
       None None None None None None None False"

function (sequential) UnmarshalJSON :: "json \<Rightarrow> error + JsonSchema" where
  "UnmarshalJSON (JObj kvs) =
     bindE (decodeScalars kvs) (\<lambda>sc.
     bindE (decodeSchemaMap UnmarshalJSON (map_of kvs ''definitions'')) (\<lambda>defs.
     bindE (decodeSchemaMap UnmarshalJSON (map_of kvs ''properties'')) (\<lambda>props.
     bindE (decodeSchemaPtr UnmarshalJSON (map_of kvs ''additionalProperties'')) (\<lambda>ap.
     bindE (decodeSchemaPtr UnmarshalJSON (map_of kvs ''propertyNames'')) (\<lambda>pn.
     bindE (decodeDependencies (map_of kvs ''dependencies'')) (\<lambda>deps.
     bindE (decodeSchemaMap UnmarshalJSON (map_of kvs ''patternProperties'')) (\<lambda>pp.
     bindE (decodeSchemaPtr UnmarshalJSON (map_of kvs ''contains'')) (\<lambda>cont.
     bindE (decodeSchemaPtr UnmarshalJSON (map_of kvs ''additionalItems'')) (\<lambda>ai.
     bindE (decodeSchemaList UnmarshalJSON (map_of kvs ''anyOf'')) (\<lambda>anyof.
     bindE (decodeSchemaList UnmarshalJSON (map_of kvs ''allOf'')) (\<lambda>allof.
     bindE (decodeSchemaList UnmarshalJSON (map_of kvs ''oneOf'')) (\<lambda>oneof.
     bindE (decodeSchemaPtr UnmarshalJSON (map_of kvs ''not'')) (\<lambda>nt.
     bindE (decodeSchemaPtr UnmarshalJSON (map_of kvs ''if'')) (\<lambda>cnd.
     bindE (decodeSchemaPtr UnmarshalJSON (map_of kvs ''then'')) (\<lambda>thn.
     bindE (decodeSchemaPtr UnmarshalJSON (map_of kvs ''else'')) (\<lambda>els.
     Inr (Node sc defs props ap pn deps pp cont ai anyof allof oneof nt cnd thn els
            False)))))))))))))))))"
| "UnmarshalJSON (JBool b) = Inr (if b then emptySchema else rejectAllSchema)"
| "UnmarshalJSON _ =
     Inl (ErrorString ''a valid json schema must be a json object or a boolean'')"
  by pat_completeness auto

termination
proof (relation "measure size")
  show "wf (measure size)" by simp
qed (auto dest!: size_map_of size_entry size_elem)


record RootJsonSchema =
  JsonSchema :: JsonSchema
  subSchemaMap :: "string \<rightharpoonup> JsonSchema"

type_synonym rootSchemaPool = "string \<rightharpoonup> RootJsonSchema"

record golib =
  regexpCompile :: "string \<Rightarrow> error option"
  MatchString :: "string \<Rightarrow> string \<Rightarrow> bool"
  ReplaceAllString :: "string \<Rightarrow> string \<Rightarrow> string \<Rightarrow> string"
  timeParse :: "string \<Rightarrow> error option"
  mailParseAddress :: "string \<Rightarrow> error option"
  netParseIP :: "string \<Rightarrow> bool"
  urlParse :: "string \<Rightarrow> error option"
  runes :: "string \<Rightarrow> nat list"
  FormatFloat :: "rat \<Rightarrow> string"
  jsonMarshal :: "json \<Rightarrow> string"
  jsonUnmarshal :: "string \<Rightarrow> error + json"
  base64 :: "string \<Rightarrow> string"

definition regexpMatchString :: "golib \<Rightarrow> string \<Rightarrow> string \<Rightarrow> error + bool" where
  "regexpMatchString L pattern s =
     (case regexpCompile L pattern of
        Some err \<Rightarrow> Inl err
      | None \<Rightarrow> Inr (MatchString L pattern s))"

type_synonym result = "error option outcome option"

type_synonym bytes = "error + json"

type_synonym validator = "JsonSchema \<Rightarrow> string \<Rightarrow> bytes \<Rightarrow> string \<Rightarrow> result"

abbreviation valid :: result where
  "valid \<equiv> Some (Returns None)"

abbreviation reject :: "error \<Rightarrow> result" where
  "reject e \<equiv> Some (Returns (Some e))"

definition nilDereference :: string where
  "nilDereference = ''invalid memory address or nil pointer dereference''"

definition call :: "validator \<Rightarrow> JsonSchema option \<Rightarrow> string \<Rightarrow> bytes \<Rightarrow> string \<Rightarrow> result" where
  "call V js jsonPath bytes rootSchemaId =
     (case js of
        None \<Rightarrow> Some (Panics nilDereference)
      | Some s \<Rightarrow> V s jsonPath bytes rootSchemaId)"

fun firstFailure :: "('a \<Rightarrow> result) \<Rightarrow> 'a list \<Rightarrow> result" where
  "firstFailure body [] = valid"
| "firstFailure body (x # xs) =
     (case body x of
        Some (Returns None) \<Rightarrow> firstFailure body xs
      | r \<Rightarrow> r)"

definition onError :: "result \<Rightarrow> (error \<Rightarrow> error) \<Rightarrow> result" where
  "onError r f =
     (case r of
        Some (Returns (Some err)) \<Rightarrow> reject (f err)
      | _ \<Rightarrow> r)"


subsection \<open>Generic keywords\<close>

definition goInt :: "rat \<Rightarrow> int" where
  "goInt v = (if 0 \<le> v then \<lfloor>v\<rfloor> else \<lceil>v\<rceil>)"

definition assertJsonType :: "string \<Rightarrow> json \<Rightarrow> error option" where
  "assertJsonType jsonType jsonData =
     (if jsonType = ''object'' then
        (case jsonData of JObj _ \<Rightarrow> None
         | _ \<Rightarrow> Some (KeywordValidationError ''type''
                     ''inspected value expected to be a json object''))
      else if jsonType = ''array'' then
        (case jsonData of JArr _ \<Rightarrow> None
         | _ \<Rightarrow> Some (KeywordValidationError ''type''
                     ''inspected value expected to be a json array''))
      else if jsonType = ''string'' then
        (case jsonData of JStr _ \<Rightarrow> None
         | _ \<Rightarrow> Some (KeywordValidationError ''type''
                     ''inspected value expected to be a json string''))
      else if jsonType = ''integer'' then
        (case jsonData of
           JNum v \<Rightarrow>
             if v = of_int (goInt v) then None
             else Some (KeywordValidationError ''type''
                          ''inspected value expected to be a json integer'')
         | _ \<Rightarrow> Some (KeywordValidationError ''type''
                     ''inspected value expected to be a json integer''))
      else if jsonType = ''number'' then
        (case jsonData of JNum _ \<Rightarrow> None
         | _ \<Rightarrow> Some (KeywordValidationError ''type''
                     ''inspected value expected to be a json number''))
      else if jsonType = ''boolean'' then
        (case jsonData of JBool _ \<Rightarrow> None
         | _ \<Rightarrow> Some (KeywordValidationError ''type''
                     ''inspected value expected to be a json boolean''))
      else if jsonType = ''null'' then
        (case jsonData of JNull \<Rightarrow> None
         | _ \<Rightarrow> Some (KeywordValidationError ''type''
                     ''inspected value expected to be a json null''))
      else Some (KeywordValidationError ''type'' (''invalid json type '' @ jsonType)))"

definition typeFieldError :: error where
  "typeFieldError =
     KeywordValidationError ''type''
       (dq @ ''type'' @ dq @ '' field in schema must be string or array of strings'')"

fun type_list :: "json list \<Rightarrow> json \<Rightarrow> error option" where
  "type_list [] jsonData =
     Some (KeywordValidationError ''type''
             ''inspected value does not match any of the valid types in the schema'')"
| "type_list (typeFromList # rest) jsonData =
     (case typeFromList of
        JStr v \<Rightarrow> (if assertJsonType v jsonData = None then None else type_list rest jsonData)
      | _ \<Rightarrow> Some typeFieldError)"

definition type_validate :: "json \<Rightarrow> json \<Rightarrow> error option" where
  "type_validate t jsonData =
     (case t of
        JArr typeFromSchema \<Rightarrow> type_list typeFromSchema jsonData
      | JStr typeFromSchema \<Rightarrow> assertJsonType typeFromSchema jsonData
      | _ \<Rightarrow> Some typeFieldError)"

definition enum_validate :: "json list \<Rightarrow> json \<Rightarrow> error option" where
  "enum_validate e jsonData =
     (if jsonData \<in> set e then None
      else Some (KeywordValidationError ''enum''
                   (''inspected value does not match any of the items in '' @ dq @ ''enum'' @ dq @
                    '' array'')))"

definition const_validate :: "golib \<Rightarrow> json \<Rightarrow> json \<Rightarrow> error option" where
  "const_validate L c jsonData =
     (if c = jsonData then None
      else Some (KeywordValidationError ''const''
                   (''inspected value not equal to '' @ dq @ jsonMarshal L c @ dq)))"

subsection \<open>String keywords\<close>

definition minLength_validate :: "int \<Rightarrow> json \<Rightarrow> error option" where
  "minLength_validate ml jsonData =
     (case jsonData of
        JStr v \<Rightarrow>
          if int (length v) \<ge> ml then None
          else Some (KeywordValidationError ''minLength''
                       (''inspected string is less than '' @ Itoa ml))
      | _ \<Rightarrow> None)"

definition maxLength_validate :: "int \<Rightarrow> json \<Rightarrow> error option" where
  "maxLength_validate ml jsonData =
     (case jsonData of
        JStr v \<Rightarrow>
          if int (length v) \<le> ml then None
          else Some (KeywordValidationError ''maxLength''
                       (''inspected string is greater than '' @ Itoa ml))
      | _ \<Rightarrow> None)"

definition pattern_validate :: "golib \<Rightarrow> string \<Rightarrow> json \<Rightarrow> error option" where
  "pattern_validate L p jsonData =
     (case jsonData of
        JStr v \<Rightarrow>
          (case regexpMatchString L p v of
             Inl err \<Rightarrow> Some (KeywordValidationError ''pattern'' (Error err))
           | Inr match \<Rightarrow>
               if match then None
               else Some (KeywordValidationError ''pattern''
                            (''value '' @ v @ '' does not match to pattern'' @ p)))
      | _ \<Rightarrow> None)"


subsection \<open>The other format checkers\<close>

definition bs :: string where
  "bs = [CHR 0x5C]"

definition IsValidDateTime :: "golib \<Rightarrow> string \<Rightarrow> error option" where
  "IsValidDateTime L dateTime = timeParse L dateTime"

definition IsValidDate :: "golib \<Rightarrow> string \<Rightarrow> error option" where
  "IsValidDate L date = IsValidDateTime L (date @ ''T00:00:00.0Z'')"

definition IsValidTime :: "golib \<Rightarrow> string \<Rightarrow> error option" where
  "IsValidTime L time = IsValidDateTime L (''1991-02-21'' @ ''T'' @ time)"

definition IsValidEmail :: "golib \<Rightarrow> string \<Rightarrow> error option" where
  "IsValidEmail L email = mailParseAddress L email"

definition IsValidIdnEmail :: "golib \<Rightarrow> string \<Rightarrow> error option" where
  "IsValidIdnEmail L idnEmail = mailParseAddress L idnEmail"

definition hostnamePattern :: string where
  "hostnamePattern =
     ''^([a-zA-Z0-9]|[a-zA-Z0-9][a-zA-Z0-9'' @ bs @ ''-]{0,61}[a-zA-Z0-9])('' @ bs @
     ''.([a-zA-Z0-9]|[a-zA-Z0-9][a-zA-Z0-9'' @ bs @ ''-]{0,61}[a-zA-Z0-9]))*$''"

definition IsValidHostname :: "golib \<Rightarrow> string \<Rightarrow> error option" where
  "IsValidHostname L hostname =
     (if length hostname > 255
      then Some (ErrorString ''hostname is too long (more then 255 characters)'')
      else if \<not> MatchString L hostnamePattern hostname
      then Some (ErrorString (hostname @ ''is not valid hostname''))
      else None)"

definition disallowedIdnChars :: "nat list" where
  "disallowedIdnChars =
     [0x0020, 0x002D, 0x00A2, 0x00A3, 0x00A4, 0x00A5, 0x034F, 0x0640, 0x07FA, 0x180B,
      0x180C, 0x180D, 0x200B, 0x2060, 0x2104, 0x2108, 0x2114, 0x2117, 0x2118, 0x211E,
      0x211F, 0x2123, 0x2125, 0x2282, 0x2283, 0x2284, 0x2285, 0x2286, 0x2287, 0x2288,
      0x2616, 0x2617, 0x2619, 0x262F, 0x2638, 0x266C, 0x266D, 0x266F, 0x2752, 0x2756,
      0x2758, 0x275E, 0x2761, 0x2775, 0x2794, 0x2798, 0x27AF, 0x27B1, 0x27BE, 0x3004,
      0x3012, 0x3013, 0x3020, 0x302E, 0x302F, 0x3031, 0x3032, 0x3035, 0x303B, 0x3164,
      0xFFA0]"

definition IsValidIdnHostname :: "golib \<Rightarrow> string \<Rightarrow> error option" where
  "IsValidIdnHostname L idnHostname =
     (if length idnHostname > 255
      then Some (ErrorString ''hostname is too long (more then 255 characters)'')
      else if \<exists>r \<in> set (runes L idnHostname). r \<in> set disallowedIdnChars
      then Some (ErrorString ''invalid hostname: contains illegal character'')
      else None)"

definition IsValidIPv4 :: "golib \<Rightarrow> string \<Rightarrow> error option" where
  "IsValidIPv4 L ipv4 =
     (if \<not> netParseIP L ipv4 \<or> \<not> strings_Contains ipv4 (CHR ''.'')
      then Some (ErrorString (''invalid ipv4 address '' @ ipv4))
      else None)"

definition IsValidIPv6 :: "golib \<Rightarrow> string \<Rightarrow> error option" where
  "IsValidIPv6 L ipv6 =
     (if \<not> netParseIP L ipv6 \<or> \<not> strings_Contains ipv6 (CHR '':'')
      then Some (ErrorString (''invalid ipv6 address '' @ ipv6))
      else None)"

definition IsValidURI :: "golib \<Rightarrow> string \<Rightarrow> error option" where
  "IsValidURI L uri =
     (case urlParse L uri of
        Some err \<Rightarrow> Some err
      | None \<Rightarrow>
          if \<not> MatchString L (''^[^'' @ bs @ '':]+'' @ bs @ '':'') uri
          then Some (ErrorString ''uri missing scheme prefix'')
          else None)"

definition IsValidUriRef :: "golib \<Rightarrow> string \<Rightarrow> error option" where
  "IsValidUriRef L uriRef =
     (case urlParse L uriRef of
        Some err \<Rightarrow> Some err
      | None \<Rightarrow>
          if strings_Contains uriRef (CHR 0x5C)
          then Some (ErrorString (''invalid uri-ref '' @ uriRef))
          else None)"

definition IsValidIri :: "golib \<Rightarrow> string \<Rightarrow> error option" where
  "IsValidIri L iri = IsValidURI L iri"

definition IsValidIriRef :: "golib \<Rightarrow> string \<Rightarrow> error option" where
  "IsValidIriRef L iriRef = IsValidUriRef L iriRef"

definition IsValidURITemplate :: "golib \<Rightarrow> string \<Rightarrow> error option" where
  "IsValidURITemplate L uriTemplate =
     (let uriRef = ReplaceAllString L (''{[^{}'' @ bs @ bs @ '']*}'') uriTemplate ''tmp''
      in if strings_Contains uriRef (CHR ''{'') \<or> strings_Contains uriRef (CHR ''}'')
         then Some (ErrorString (''invalid uri template '' @ uriTemplate))
         else IsValidUriRef L uriRef)"

definition IsValidRegex :: "golib \<Rightarrow> string \<Rightarrow> error option" where
  "IsValidRegex L regex = regexpCompile L regex"

definition formatError :: "string \<Rightarrow> error option \<Rightarrow> error option" where
  "formatError prefix r =
     (case r of
        None \<Rightarrow> None
      | Some err \<Rightarrow> Some (KeywordValidationError ''format'' (prefix @ Error err)))"

definition format_validate :: "golib \<Rightarrow> string \<Rightarrow> json \<Rightarrow> error option" where
  "format_validate L f jsonData =
     (case jsonData of
        JStr v \<Rightarrow>
          if f = ''date-time''
            then formatError ''date-time incorrectly formatted '' (IsValidDateTime L v)
          else if f = ''date''
            then formatError ''date incorrectly formatted: '' (IsValidDate L v)
          else if f = ''time''
            then formatError ''time incorrectly formatted: '' (IsValidTime L v)
          else if f = ''email''
            then formatError ''email incorrectly formatted: '' (IsValidEmail L v)
          else if f = ''idn-email''
            then formatError ''idn-email incorrectly formatted: '' (IsValidIdnEmail L v)
          else if f = ''hostname''
            then formatError ''hostname incorrectly formatted: '' (IsValidHostname L v)
          else if f = ''idn-hostname''
            then formatError ''idn-hostname incorrectly formatted: '' (IsValidIdnHostname L v)
          else if f = ''ipv4''
            then formatError ''ipv4 incorrectly formatted: '' (IsValidIPv4 L v)
          else if f = ''ipv6''
            then formatError ''ipv6 incorrectly formatted: '' (IsValidIPv6 L v)
          else if f = ''uri''
            then formatError ''uri incorrectly formatted: '' (IsValidURI L v)
          else if f = ''uri-reference''
            then formatError ''uri-reference incorrectly formatted: '' (IsValidUriRef L v)
          else if f = ''iri''
            then formatError ''iri incorrectly formatted: '' (IsValidIri L v)
          else if f = ''iri-reference''
            then formatError ''iri-reference incorrectly formatted: '' (IsValidIriRef L v)
          else if f = ''uri-template''
            then formatError ''uri-template incorrectly formatted: '' (IsValidURITemplate L v)
          else if f = ''json-pointer''
            then formatError ''json-pointer incorrectly formatted: '' (IsValidJSONPointer v)
          else if f = ''relative-json-pointer''
            then formatError ''relative-json-pointer incorrectly formatted: ''
                   (IsValidRelJSONPointer v)
          else if f = ''regex''
            then formatError ''regex incorrectly formatted: '' (IsValidRegex L v)
          else None
      | _ \<Rightarrow> None)"

subsection \<open>Number keywords\<close>

text \<open>\<^verbatim>\<open>math.Mod(v, mo) == 0\<close>: the remainder is exact, and not a number for a zero divisor.\<close>

definition modIsZero :: "rat \<Rightarrow> rat \<Rightarrow> bool" where
  "modIsZero v mo = (mo \<noteq> 0 \<and> of_int \<lfloor>v / mo\<rfloor> = v / mo)"

definition multipleOf_validate :: "golib \<Rightarrow> rat \<Rightarrow> json \<Rightarrow> error option" where
  "multipleOf_validate L mo jsonData =
     (case jsonData of
        JNum v \<Rightarrow>
          if modIsZero v mo then None
          else Some (KeywordValidationError ''multipleOf''
                       (''inspected value is not a multiple of '' @ FormatFloat L mo))
      | _ \<Rightarrow> None)"

definition minimum_validate :: "golib \<Rightarrow> rat \<Rightarrow> json \<Rightarrow> error option" where
  "minimum_validate L m jsonData =
     (case jsonData of
        JNum v \<Rightarrow>
          if v \<ge> m then None
          else Some (KeywordValidationError ''minimum''
                       (''inspected value is less than '' @ FormatFloat L m))
      | _ \<Rightarrow> None)"

definition maximum_validate :: "golib \<Rightarrow> rat \<Rightarrow> json \<Rightarrow> error option" where
  "maximum_validate L m jsonData =
     (case jsonData of
        JNum v \<Rightarrow>
          if v \<le> m then None
          else Some (KeywordValidationError ''maximum''
                       (''inspected value is greater than '' @ FormatFloat L m))
      | _ \<Rightarrow> None)"

definition exclusiveMinimum_validate :: "golib \<Rightarrow> rat \<Rightarrow> json \<Rightarrow> error option" where
  "exclusiveMinimum_validate L em jsonData =
     (case jsonData of
        JNum v \<Rightarrow>
          if v > em then None
          else Some (KeywordValidationError ''exclusiveMinimum''
                       (''inspected value is not greater than '' @ FormatFloat L em))
      | _ \<Rightarrow> None)"

definition exclusiveMaximum_validate :: "golib \<Rightarrow> rat \<Rightarrow> json \<Rightarrow> error option" where
  "exclusiveMaximum_validate L em jsonData =
     (case jsonData of
        JNum v \<Rightarrow>
          if v < em then None
          else Some (KeywordValidationError ''exclusiveMaximum''
                       (''inspected value is not less than '' @ FormatFloat L em))
      | _ \<Rightarrow> None)"


subsection \<open>Object keywords\<close>

definition properties_validate ::
  "validator \<Rightarrow> (string \<times> JsonSchema option) list \<Rightarrow> string \<Rightarrow> json \<Rightarrow> string \<Rightarrow> result" where
  "properties_validate V p jsonPath jsonData rootSchemaId =
     (case jsonData of
        JObj object \<Rightarrow>
          firstFailure
            (\<lambda>(key, value).
               if map_of object key \<noteq> None
               then call V value (jsonPath @ ''/'' @ key) (Inr jsonData) rootSchemaId
               else valid)
            p
      | _ \<Rightarrow> valid)"

text \<open>The loop over the sibling patterns: it stops at a pattern that does not compile.\<close>

fun matchesAny :: "golib \<Rightarrow> string list \<Rightarrow> string \<Rightarrow> error + bool" where
  "matchesAny L [] property = Inr False"
| "matchesAny L (pattern # rest) property =
     (case regexpMatchString L pattern property of
        Inl err \<Rightarrow> Inl err
      | Inr match \<Rightarrow>
          (case matchesAny L rest property of
             Inl err \<Rightarrow> Inl err
           | Inr found \<Rightarrow> Inr (match \<or> found)))"

definition additionalProperties_validate ::
  "golib \<Rightarrow> validator \<Rightarrow> JsonSchema \<Rightarrow> (string \<times> JsonSchema option) list option \<Rightarrow>
   (string \<times> JsonSchema option) list option \<Rightarrow> string \<Rightarrow> json \<Rightarrow> string \<Rightarrow> result" where
  "additionalProperties_validate L V ap siblingProperties siblingPatternProperties jsonPath
     jsonData rootSchemaId =
     (case jsonData of
        JObj object \<Rightarrow>
          firstFailure
            (\<lambda>property.
               let validatedByProperties =
                     (case siblingProperties of
                        None \<Rightarrow> False
                      | Some ps \<Rightarrow> map_of ps property \<noteq> None)
               in case (case siblingPatternProperties of
                          None \<Rightarrow> Inr False
                        | Some pps \<Rightarrow> matchesAny L (map fst pps) property) of
                    Inl err \<Rightarrow> reject (KeywordValidationError ''additionalProperties'' (Error err))
                  | Inr validatedByPatternProperties \<Rightarrow>
                      if \<not> validatedByProperties \<and> \<not> validatedByPatternProperties
                      then onError
                             (V ap (jsonPath @ ''/'' @ property) (Inr jsonData) rootSchemaId)
                             (\<lambda>err. KeywordValidationError ''additionalProperties''
                                      (''property '' @ dq @ property @ dq @
                                       '' failed in validation: '' @ [CHR 0x0A] @ Error err))
                      else valid)
            (map fst object)
      | _ \<Rightarrow> valid)"

fun required_loop :: "string list \<Rightarrow> (string \<times> json) list \<Rightarrow> error option" where
  "required_loop [] object = None"
| "required_loop (property # rest) object =
     (if map_of object property = None \<or> map_of object property = Some JNull
      then Some (KeywordValidationError ''required''
                   (''Missing required property - '' @ property))
      else required_loop rest object)"

definition required_validate :: "string list \<Rightarrow> json \<Rightarrow> error option" where
  "required_validate r jsonData =
     (case jsonData of
        JObj object \<Rightarrow> required_loop r object
      | _ \<Rightarrow> None)"

definition propertyNames_validate ::
  "golib \<Rightarrow> validator \<Rightarrow> JsonSchema \<Rightarrow> string \<Rightarrow> json \<Rightarrow> string \<Rightarrow> result" where
  "propertyNames_validate L V pn jsonPath jsonData rootSchemaId =
     (case jsonData of
        JObj object \<Rightarrow>
          firstFailure
            (\<lambda>property.
               onError (V pn [] (jsonUnmarshal L (dq @ property @ dq)) rootSchemaId)
                 (\<lambda>err. KeywordValidationError ''propertyNames''
                          (''property name '' @ dq @ property @ dq @
                           '' failed in validation: '' @ Error err)))
            (map fst object)
      | _ \<Rightarrow> valid)"

fun dependencyArray ::
  "json list \<Rightarrow> int \<Rightarrow> (string \<times> json) list \<Rightarrow> string \<Rightarrow> error option" where
  "dependencyArray [] index object propertyName = None"
| "dependencyArray (value # rest) index object propertyName =
     (case value of
        JStr requiredProperty \<Rightarrow>
          if map_of object requiredProperty = None
          then Some (KeywordValidationError ''dependencies''
                       (''missing property '' @ dq @ requiredProperty @ dq @
                        '' although it is required according to '' @ dq @ propertyName @ dq @
                        '' dependency''))
          else dependencyArray rest (index + 1) object propertyName
      | _ \<Rightarrow>
          Some (KeywordValidationError ''dependencies''
                  (''all items in dependency array must be strings, item at position '' @
                   Itoa index @ '' is not a string'')))"

definition dependencies_validate ::
  "validator \<Rightarrow> (string \<times> (json + JsonSchema)) list \<Rightarrow> string \<Rightarrow> json \<Rightarrow> string \<Rightarrow> result" where
  "dependencies_validate V d jsonPath jsonData rootSchemaId =
     (case jsonData of
        JObj object \<Rightarrow>
          firstFailure
            (\<lambda>(propertyName, dependency).
               case dependency of
                 Inr v \<Rightarrow>
                   if map_of object propertyName \<noteq> None
                   then onError (V v [] (Inr jsonData) rootSchemaId)
                          (\<lambda>err. KeywordValidationError ''dependencies''
                                   (''inspected value failed in validation against sub-schema given in ''
                                    @ dq @ propertyName @ dq @ '' dependency: '' @ Error err))
                   else valid
               | Inl (JArr v) \<Rightarrow> Some (Returns (dependencyArray v 0 object propertyName))
               | Inl _ \<Rightarrow>
                   reject (KeywordValidationError ''dependencies''
                             ''dependency value must be a json object or a json array''))
            d
      | _ \<Rightarrow> valid)"

definition patternProperties_validate ::
  "golib \<Rightarrow> validator \<Rightarrow> (string \<times> JsonSchema option) list \<Rightarrow> string \<Rightarrow> json \<Rightarrow> string \<Rightarrow>
   result" where
  "patternProperties_validate L V pp jsonPath jsonData rootSchemaId =
     (case jsonData of
        JObj object \<Rightarrow>
          firstFailure
            (\<lambda>(pattern, subSchema).
               firstFailure
                 (\<lambda>property.
                    case regexpMatchString L pattern property of
                      Inl err \<Rightarrow> reject (KeywordValidationError ''patternProperties'' (Error err))
                    | Inr match \<Rightarrow>
                        if match
                        then onError
                               (call V subSchema (jsonPath @ ''/'' @ property) (Inr jsonData)
                                  rootSchemaId)
                               (\<lambda>err. KeywordValidationError ''patternProperties''
                                        (''property '' @ dq @ property @ dq @
                                         '' that matches the pattern '' @ dq @ pattern @ dq @
                                         '' failed in validation: '' @ [CHR 0x0A] @ Error err))
                        else valid)
                 (map fst object))
            pp
      | _ \<Rightarrow> valid)"

definition minProperties_validate :: "int \<Rightarrow> json \<Rightarrow> error option" where
  "minProperties_validate mp jsonData =
     (case jsonData of
        JObj v \<Rightarrow>
          if int (length v) \<ge> mp then None
          else Some (KeywordValidationError ''minProperties''
                       (''inspected value must contains at least '' @ Itoa mp @ '' properties''))
      | _ \<Rightarrow> None)"

definition maxProperties_validate :: "int \<Rightarrow> json \<Rightarrow> error option" where
  "maxProperties_validate mp jsonData =
     (case jsonData of
        JObj v \<Rightarrow>
          if int (length v) \<le> mp then None
          else Some (KeywordValidationError ''minProperties''
                       (''inspected value may contains at most '' @ Itoa mp @ '' properties''))
      | _ \<Rightarrow> None)"

subsection \<open>Array keywords\<close>

text \<open>
  \<^verbatim>\<open>items.validate\<close> decodes the raw value of the field again at every call; the
  schemas it builds were never passed to \<^verbatim>\<open>scanSchema\<close>.
\<close>

definition items_validate ::
  "validator \<Rightarrow> json \<Rightarrow> string \<Rightarrow> json \<Rightarrow> string \<Rightarrow> result" where
  "items_validate V i jsonPath jsonData rootSchemaId =
     (case jsonData of
        JArr array \<Rightarrow>
          (case i of
             JObj _ \<Rightarrow>
               (case UnmarshalJSON i of
                  Inl err \<Rightarrow> reject err
                | Inr schema \<Rightarrow>
                    firstFailure
                      (\<lambda>index. V schema (jsonPath @ ''/'' @ Itoa (int index)) (Inr jsonData)
                                 rootSchemaId)
                      [0 ..< length array])
           | JArr itemsField \<Rightarrow>
               if length itemsField > length array
               then reject (KeywordValidationError ''items''
                              (''when '' @ dq @ ''items'' @ dq @
                               '' field contains a list of Json Schema objects, the '' @
                               ''inspected array must contain at least the same amount of items''))
               else firstFailure
                      (\<lambda>(index, schemaFromItems).
                         case UnmarshalJSON schemaFromItems of
                           Inl err \<Rightarrow> reject err
                         | Inr schema \<Rightarrow>
                             V schema (jsonPath @ ''/'' @ Itoa (int index)) (Inr jsonData)
                               rootSchemaId)
                      (zip [0 ..< length itemsField] itemsField)
           | _ \<Rightarrow>
               reject (KeywordValidationError ''items''
                         (dq @ ''items'' @ dq @
                          '' field value in schema must be a valid Json Schema or an array of Json Schema'')))
      | _ \<Rightarrow> valid)"

text \<open>
  \<^verbatim>\<open>additionalItems.validate\<close> dereferences \<^verbatim>\<open>siblingItems\<close> first, whatever the
  instance is. The loop \<^verbatim>\<open>for index := range array[len(itemsArray):]\<close> counts \<open>index\<close>
  from 0 over the tail of the array, and validates the element at \<open>jsonPath/index\<close>.
\<close>

definition additionalItems_validate ::
  "validator \<Rightarrow> JsonSchema \<Rightarrow> json option \<Rightarrow> string \<Rightarrow> json \<Rightarrow> string \<Rightarrow> result" where
  "additionalItems_validate V ai siblingItems jsonPath jsonData rootSchemaId =
     (case siblingItems of
        None \<Rightarrow> Some (Panics nilDereference)
      | Some (JArr itemsArray) \<Rightarrow>
          (case jsonData of
             JArr array \<Rightarrow>
               if length itemsArray > length array
               then Some (Panics ''slice bounds out of range'')
               else firstFailure
                      (\<lambda>index.
                         onError
                           (V ai (jsonPath @ ''/'' @ Itoa (int index)) (Inr jsonData) rootSchemaId)
                           (\<lambda>err. KeywordValidationError ''additionalItems''
                                    (''item at position '' @ Itoa (int index) @
                                     '' failed in validation: '' @ Error err)))
                      [0 ..< length (drop (length itemsArray) array)]
           | _ \<Rightarrow> valid)
      | Some _ \<Rightarrow> valid)"

text \<open>A loop that returns \<^verbatim>\<open>nil\<close> at the first body that does, and the error after it.\<close>

fun firstSuccess :: "('a \<Rightarrow> result) \<Rightarrow> 'a list \<Rightarrow> error \<Rightarrow> result" where
  "firstSuccess body [] otherwise = reject otherwise"
| "firstSuccess body (x # xs) otherwise =
     (case body x of
        Some (Returns None) \<Rightarrow> valid
      | Some (Returns (Some err)) \<Rightarrow> firstSuccess body xs otherwise
      | r \<Rightarrow> r)"

definition contains_validate ::
  "validator \<Rightarrow> JsonSchema \<Rightarrow> string \<Rightarrow> json \<Rightarrow> string \<Rightarrow> result" where
  "contains_validate V c jsonPath jsonData rootSchemaId =
     firstSuccess
       (\<lambda>index. V c (jsonPath @ ''/'' @ Itoa (int index)) (Inr jsonData) rootSchemaId)
       (case jsonData of JArr array \<Rightarrow> [0 ..< length array] | _ \<Rightarrow> [])
       (KeywordValidationError ''contains''
          ''could validate any of the inspected array's items against the given schema'')"

definition minItems_validate :: "int \<Rightarrow> json \<Rightarrow> error option" where
  "minItems_validate mi jsonData =
     (case jsonData of
        JArr v \<Rightarrow>
          if int (length v) \<ge> mi then None
          else Some (KeywordValidationError ''minItems''
                       (''inspected array must contain at least '' @ Itoa mi @ '' items''))
      | _ \<Rightarrow> None)"

definition maxItems_validate :: "int \<Rightarrow> json \<Rightarrow> error option" where
  "maxItems_validate mi jsonData =
     (case jsonData of
        JArr v \<Rightarrow>
          if int (length v) \<le> mi then None
          else Some (KeywordValidationError ''maxItems''
                       (''inspected array must contain at most '' @ Itoa mi @ '' items''))
      | _ \<Rightarrow> None)"

fun uniqueItems_loop :: "(json \<times> int) list \<Rightarrow> json list \<Rightarrow> int \<Rightarrow> error option" where
  "uniqueItems_loop uniqueSet [] index = None"
| "uniqueItems_loop uniqueSet (item # rest) index =
     (case map_of uniqueSet item of
        Some v \<Rightarrow>
          Some (KeywordValidationError ''uniqueItems''
                  (''the inspected array contains two equal items at indices: '' @ Itoa v @
                   '', '' @ Itoa index))
      | None \<Rightarrow> uniqueItems_loop (uniqueSet @ [(item, index)]) rest (index + 1))"

definition uniqueItems_validate :: "bool \<Rightarrow> json \<Rightarrow> error option" where
  "uniqueItems_validate ui jsonData =
     (case jsonData of
        JArr array \<Rightarrow> uniqueItems_loop [] array 0
      | _ \<Rightarrow> None)"

subsection \<open>Conditional keywords\<close>

definition anyOf_validate ::
  "validator \<Rightarrow> JsonSchema option list \<Rightarrow> string \<Rightarrow> json \<Rightarrow> string \<Rightarrow> result" where
  "anyOf_validate V af jsonPath jsonData rootSchemaId =
     firstSuccess (\<lambda>schema. call V schema [] (Inr jsonData) rootSchemaId) af
       (KeywordValidationError ''anyOf''
          ''inspected value could not be validated against any of the given schemas'')"

definition allOf_validate ::
  "validator \<Rightarrow> JsonSchema option list \<Rightarrow> string \<Rightarrow> json \<Rightarrow> string \<Rightarrow> result" where
  "allOf_validate V af jsonPath jsonData rootSchemaId =
     firstFailure
       (\<lambda>schema.
          onError (call V schema [] (Inr jsonData) rootSchemaId)
            (\<lambda>err. KeywordValidationError ''allOf''
                     ''inspected value could not be validated against all of the given schemas''))
       af"

fun oneOf_loop ::
  "validator \<Rightarrow> JsonSchema option list \<Rightarrow> json \<Rightarrow> string \<Rightarrow> bool \<Rightarrow> result" where
  "oneOf_loop V [] jsonData rootSchemaId oneValidationAlreadySucceeded =
     (if oneValidationAlreadySucceeded then valid
      else reject (KeywordValidationError ''oneOf''
                     ''inspected value could not be validated against any of the given schemas''))"
| "oneOf_loop V (schema # rest) jsonData rootSchemaId oneValidationAlreadySucceeded =
     (case call V schema [] (Inr jsonData) rootSchemaId of
        Some (Returns None) \<Rightarrow>
          if oneValidationAlreadySucceeded
          then reject (KeywordValidationError ''oneOf''
                         ''inspected data is valid against more than one given schema'')
          else oneOf_loop V rest jsonData rootSchemaId True
      | Some (Returns (Some err)) \<Rightarrow>
          oneOf_loop V rest jsonData rootSchemaId oneValidationAlreadySucceeded
      | r \<Rightarrow> r)"

definition oneOf_validate ::
  "validator \<Rightarrow> JsonSchema option list \<Rightarrow> string \<Rightarrow> json \<Rightarrow> string \<Rightarrow> result" where
  "oneOf_validate V of' jsonPath jsonData rootSchemaId =
     oneOf_loop V of' jsonData rootSchemaId False"

definition not_validate ::
  "validator \<Rightarrow> JsonSchema \<Rightarrow> string \<Rightarrow> json \<Rightarrow> string \<Rightarrow> result" where
  "not_validate V n jsonPath jsonData rootSchemaId =
     (case V n jsonPath (Inr jsonData) rootSchemaId of
        Some (Returns (Some err)) \<Rightarrow> valid
      | Some (Returns None) \<Rightarrow>
          reject (KeywordValidationError ''not''
                    ''inspected value did not fail on validation against the schema defined by this keyword'')
      | r \<Rightarrow> r)"

definition if_validate ::
  "validator \<Rightarrow> JsonSchema \<Rightarrow> JsonSchema option \<Rightarrow> JsonSchema option \<Rightarrow> string \<Rightarrow> json \<Rightarrow>
   string \<Rightarrow> result" where
  "if_validate V i siblingThen siblingElse jsonPath jsonData rootSchemaId =
     (case V i [] (Inr jsonData) rootSchemaId of
        Some (Returns None) \<Rightarrow>
          (case siblingThen of
             Some thn \<Rightarrow> V thn jsonPath (Inr jsonData) rootSchemaId
           | None \<Rightarrow> valid)
      | Some (Returns (Some err)) \<Rightarrow>
          (case siblingElse of
             Some els \<Rightarrow> V els jsonPath (Inr jsonData) rootSchemaId
           | None \<Rightarrow> valid)
      | r \<Rightarrow> r)"


subsection \<open>The keywordValidator interface and the schema node\<close>

text \<open>
  The types that implement \<^verbatim>\<open>keywordValidator\<close>, each with the value of its field. The
  sibling pointers of \<^verbatim>\<open>additionalProperties\<close>, \<^verbatim>\<open>additionalItems\<close> and \<^verbatim>\<open>_if\<close>
  point into the node that holds the keyword; they are \<^verbatim>\<open>nil\<close> until
  \<^verbatim>\<open>connectRelatedKeywords\<close> has run on that node (\<open>connected\<close>) and the sibling
  field is present.
\<close>

datatype keywordValidator =
    K_type json
  | K_const json
  | K_enum "json list"
  | K_minLength int
  | K_maxLength int
  | K_pattern string
  | K_format string
  | K_multipleOf rat
  | K_minimum rat
  | K_maximum rat
  | K_exclusiveMinimum rat
  | K_exclusiveMaximum rat
  | K_required "string list"
  | K_propertyNames JsonSchema
  | K_properties "(string \<times> JsonSchema option) list"
  | K_additionalProperties JsonSchema "(string \<times> JsonSchema option) list option"
      "(string \<times> JsonSchema option) list option"
  | K_patternProperties "(string \<times> JsonSchema option) list"
  | K_dependencies "(string \<times> (json + JsonSchema)) list"
  | K_minProperties int
  | K_maxProperties int
  | K_items json
  | K_contains JsonSchema
  | K_additionalItems JsonSchema "json option"
  | K_minItems int
  | K_maxItems int
  | K_uniqueItems bool
  | K_anyOf "JsonSchema option list"
  | K_allOf "JsonSchema option list"
  | K_oneOf "JsonSchema option list"
  | K_not JsonSchema
  | K_if JsonSchema "JsonSchema option" "JsonSchema option"

definition whenSet :: "'a option \<Rightarrow> ('a \<Rightarrow> keywordValidator) \<Rightarrow> keywordValidator list" where
  "whenSet field k = (case field of None \<Rightarrow> [] | Some v \<Rightarrow> [k v])"

definition sibling :: "JsonSchema \<Rightarrow> 'a option \<Rightarrow> 'a option" where
  "sibling js field = (if connected js then field else None)"

definition getNonNilKeywordsSlice :: "JsonSchema \<Rightarrow> keywordValidator list" where
  "getNonNilKeywordsSlice js =
     whenSet (Type (scalars js)) K_type @
     whenSet (Const (scalars js)) K_const @
     whenSet (Enum (scalars js)) K_enum @
     whenSet (MinLength (scalars js)) K_minLength @
     whenSet (MaxLength (scalars js)) K_maxLength @
     whenSet (Pattern (scalars js)) K_pattern @
     whenSet (Format (scalars js)) K_format @
     whenSet (MultipleOf (scalars js)) K_multipleOf @
     whenSet (Minimum (scalars js)) K_minimum @
     whenSet (Maximum (scalars js)) K_maximum @
     whenSet (ExclusiveMinimum (scalars js)) K_exclusiveMinimum @
     whenSet (ExclusiveMaximum (scalars js)) K_exclusiveMaximum @
     whenSet (Required (scalars js)) K_required @
     whenSet (PropertyNames js) K_propertyNames @
     whenSet (Properties js) K_properties @
     whenSet (AdditionalProperties js)
       (\<lambda>ap. K_additionalProperties ap (sibling js (Properties js))
              (sibling js (PatternProperties js))) @
     whenSet (PatternProperties js) K_patternProperties @
     whenSet (Dependencies js) K_dependencies @
     whenSet (MinProperties (scalars js)) K_minProperties @
     whenSet (MaxProperties (scalars js)) K_maxProperties @
     whenSet (Items (scalars js)) K_items @
     whenSet (Contains js) K_contains @
     whenSet (AdditionalItems js) (\<lambda>ai. K_additionalItems ai (sibling js (Items (scalars js)))) @
     whenSet (MinItems (scalars js)) K_minItems @
     whenSet (MaxItems (scalars js)) K_maxItems @
     whenSet (UniqueItems (scalars js)) K_uniqueItems @
     whenSet (AnyOf js) K_anyOf @
     whenSet (AllOf js) K_allOf @
     whenSet (OneOf js) K_oneOf @
     whenSet (Not' js) K_not @
     whenSet (If' js) (\<lambda>i. K_if i (sibling js (Then js)) (sibling js (Else js)))"

fun validate ::
  "golib \<Rightarrow> validator \<Rightarrow> keywordValidator \<Rightarrow> string \<Rightarrow> json \<Rightarrow> string \<Rightarrow> result" where
  "validate L V (K_type t) p d r = Some (Returns (type_validate t d))"
| "validate L V (K_const c) p d r = Some (Returns (const_validate L c d))"
| "validate L V (K_enum e) p d r = Some (Returns (enum_validate e d))"
| "validate L V (K_minLength ml) p d r = Some (Returns (minLength_validate ml d))"
| "validate L V (K_maxLength ml) p d r = Some (Returns (maxLength_validate ml d))"
| "validate L V (K_pattern pat) p d r = Some (Returns (pattern_validate L pat d))"
| "validate L V (K_format f) p d r = Some (Returns (format_validate L f d))"
| "validate L V (K_multipleOf mo) p d r = Some (Returns (multipleOf_validate L mo d))"
| "validate L V (K_minimum m) p d r = Some (Returns (minimum_validate L m d))"
| "validate L V (K_maximum m) p d r = Some (Returns (maximum_validate L m d))"
| "validate L V (K_exclusiveMinimum em) p d r = Some (Returns (exclusiveMinimum_validate L em d))"
| "validate L V (K_exclusiveMaximum em) p d r = Some (Returns (exclusiveMaximum_validate L em d))"
| "validate L V (K_required req) p d r = Some (Returns (required_validate req d))"
| "validate L V (K_propertyNames pn) p d r = propertyNames_validate L V pn p d r"
| "validate L V (K_properties ps) p d r = properties_validate V ps p d r"
| "validate L V (K_additionalProperties ap sp spp) p d r =
     additionalProperties_validate L V ap sp spp p d r"
| "validate L V (K_patternProperties pp) p d r = patternProperties_validate L V pp p d r"
| "validate L V (K_dependencies deps) p d r = dependencies_validate V deps p d r"
| "validate L V (K_minProperties mp) p d r = Some (Returns (minProperties_validate mp d))"
| "validate L V (K_maxProperties mp) p d r = Some (Returns (maxProperties_validate mp d))"
| "validate L V (K_items i) p d r = items_validate V i p d r"
| "validate L V (K_contains c) p d r = contains_validate V c p d r"
| "validate L V (K_additionalItems ai si) p d r = additionalItems_validate V ai si p d r"
| "validate L V (K_minItems mi) p d r = Some (Returns (minItems_validate mi d))"
| "validate L V (K_maxItems mi) p d r = Some (Returns (maxItems_validate mi d))"
| "validate L V (K_uniqueItems ui) p d r = Some (Returns (uniqueItems_validate ui d))"
| "validate L V (K_anyOf af) p d r = anyOf_validate V af p d r"
| "validate L V (K_allOf af) p d r = allOf_validate V af p d r"
| "validate L V (K_oneOf ofs) p d r = oneOf_validate V ofs p d r"
| "validate L V (K_not n) p d r = not_validate V n p d r"
| "validate L V (K_if i thn els) p d r = if_validate V i thn els p d r"

subsection \<open>Reference resolution and the validation driver\<close>

text \<open>
  \<^verbatim>\<open>validateByRef\<close> reads \<^verbatim>\<open>splittedRef[1]\<close> without looking at the length of the
  split, and hands \<^verbatim>\<open>rootSchemaID\<close>, the id it was called with, on to the schema it
  resolved.
\<close>

definition validateByRef ::
  "validator \<Rightarrow> rootSchemaPool \<Rightarrow> string \<Rightarrow> string \<Rightarrow> bytes \<Rightarrow> string \<Rightarrow> result" where
  "validateByRef V pool r jsonPath jsonData rootSchemaID =
     (let splittedRef = Split r (CHR ''#'')
      in if length splittedRef < 2 then Some (Panics ''index out of range'')
         else (let fragment = splittedRef ! 1;
                   schemaURI = (if splittedRef ! 0 = [] then rootSchemaID else splittedRef ! 0)
               in case pool schemaURI of
                    Some rootSchema \<Rightarrow>
                      if fragment \<noteq> [] then
                        (case subSchemaMap rootSchema fragment of
                           Some subSchema \<Rightarrow> V subSchema jsonPath jsonData rootSchemaID
                         | None \<Rightarrow>
                             reject (InvalidReferenceError schemaURI fragment
                                       ''could not find fragment in the referenced root schema''))
                      else V (JsonSchema rootSchema) jsonPath jsonData rootSchemaID
                  | None \<Rightarrow>
                      reject (InvalidReferenceError schemaURI fragment
                                ''could not find the referenced root schema'')))"

definition wrapKeywordError :: "string \<Rightarrow> result \<Rightarrow> result" where
  "wrapKeywordError jsonPath r =
     (case r of
        Some (Returns (Some (KeywordValidationError keyword reason))) \<Rightarrow>
          reject (SchemaValidationError jsonPath
                    (Error (KeywordValidationError keyword reason)))
      | _ \<Rightarrow> r)"

text \<open>
  \<^verbatim>\<open>validateJsonData\<close>. A \<^verbatim>\<open>$ref\<close> may lead back to the node it stands in, and then
  the Go call never returns; the first argument bounds the depth of nested calls, and
  \<open>None\<close> is a run that needs more.
\<close>

primrec validateJsonData :: "golib \<Rightarrow> rootSchemaPool \<Rightarrow> nat \<Rightarrow> validator" where
  "validateJsonData L pool 0 = (\<lambda>js jsonPath bytes rootSchemaId. None)"
| "validateJsonData L pool (Suc n) =
     (\<lambda>js jsonPath bytes rootSchemaId.
        if RejectAll (scalars js)
        then reject (SchemaValidationError jsonPath
                       (''json schema '' @ dq @ ''false'' @ dq @ '' drops everything''))
        else case Ref (scalars js) of
               Some r \<Rightarrow>
                 validateByRef (validateJsonData L pool n) pool r jsonPath bytes rootSchemaId
             | None \<Rightarrow>
                 (let jsonTokens = Split jsonPath (CHR ''/'');
                      relativeJsonPath = ''/'' @ last jsonTokens
                  in case NewJsonPointer relativeJsonPath of
                       Inl err \<Rightarrow> reject (Wrapped err ''JsonPointer creation failed'')
                     | Inr jsonPointer \<Rightarrow>
                         (case Evaluate jsonPointer bytes of
                            Panics m \<Rightarrow> Some (Panics m)
                          | Returns (Inl err) \<Rightarrow>
                              reject (Wrapped err ''JsonPointer evaluation failed'')
                          | Returns (Inr v) \<Rightarrow>
                              firstFailure
                                (\<lambda>keyword.
                                   wrapKeywordError jsonPath
                                     (validate L (validateJsonData L pool n) keyword jsonPath v
                                        rootSchemaId))
                                (getNonNilKeywordsSlice js))))"

definition validateBytes :: "golib \<Rightarrow> rootSchemaPool \<Rightarrow> nat \<Rightarrow> RootJsonSchema \<Rightarrow> bytes \<Rightarrow> result" where
  "validateBytes L pool n rs bytes =
     validateJsonData L pool n (JsonSchema rs) [] bytes
       (case Id' (scalars (JsonSchema rs)) of Some i \<Rightarrow> i | None \<Rightarrow> [])"


section \<open>Schema compilation\<close>

subsection \<open>Field updates of a schema node\<close>

fun set_scalars :: "scalars \<Rightarrow> JsonSchema \<Rightarrow> JsonSchema" where
  "set_scalars v (Node sc defs props ap pn deps pp cont ai anyof allof oneof nt cnd thn els conn) =
     Node v defs props ap pn deps pp cont ai anyof allof oneof nt cnd thn els conn"

fun set_Definitions :: "(string \<times> JsonSchema option) list option \<Rightarrow> JsonSchema \<Rightarrow> JsonSchema" where
  "set_Definitions v (Node sc defs props ap pn deps pp cont ai anyof allof oneof nt cnd thn els conn) =
     Node sc v props ap pn deps pp cont ai anyof allof oneof nt cnd thn els conn"

fun set_Properties :: "(string \<times> JsonSchema option) list option \<Rightarrow> JsonSchema \<Rightarrow> JsonSchema" where
  "set_Properties v (Node sc defs props ap pn deps pp cont ai anyof allof oneof nt cnd thn els conn) =
     Node sc defs v ap pn deps pp cont ai anyof allof oneof nt cnd thn els conn"

fun set_AdditionalProperties :: "JsonSchema option \<Rightarrow> JsonSchema \<Rightarrow> JsonSchema" where
  "set_AdditionalProperties v (Node sc defs props ap pn deps pp cont ai anyof allof oneof nt cnd thn els conn) =
     Node sc defs props v pn deps pp cont ai anyof allof oneof nt cnd thn els conn"

fun set_PropertyNames :: "JsonSchema option \<Rightarrow> JsonSchema \<Rightarrow> JsonSchema" where
  "set_PropertyNames v (Node sc defs props ap pn deps pp cont ai anyof allof oneof nt cnd thn els conn) =
     Node sc defs props ap v deps pp cont ai anyof allof oneof nt cnd thn els conn"

fun set_Dependencies :: "(string \<times> (json + JsonSchema)) list option \<Rightarrow> JsonSchema \<Rightarrow> JsonSchema" where
  "set_Dependencies v (Node sc defs props ap pn deps pp cont ai anyof allof oneof nt cnd thn els conn) =
     Node sc defs props ap pn v pp cont ai anyof allof oneof nt cnd thn els conn"

fun set_PatternProperties :: "(string \<times> JsonSchema option) list option \<Rightarrow> JsonSchema \<Rightarrow> JsonSchema" where
  "set_PatternProperties v (Node sc defs props ap pn deps pp cont ai anyof allof oneof nt cnd thn els conn) =
     Node sc defs props ap pn deps v cont ai anyof allof oneof nt cnd thn els conn"

fun set_Contains :: "JsonSchema option \<Rightarrow> JsonSchema \<Rightarrow> JsonSchema" where
  "set_Contains v (Node sc defs props ap pn deps pp cont ai anyof allof oneof nt cnd thn els conn) =
     Node sc defs props ap pn deps pp v ai anyof allof oneof nt cnd thn els conn"

fun set_AdditionalItems :: "JsonSchema option \<Rightarrow> JsonSchema \<Rightarrow> JsonSchema" where
  "set_AdditionalItems v (Node sc defs props ap pn deps pp cont ai anyof allof oneof nt cnd thn els conn) =
     Node sc defs props ap pn deps pp cont v anyof allof oneof nt cnd thn els conn"

fun set_AnyOf :: "JsonSchema option list option \<Rightarrow> JsonSchema \<Rightarrow> JsonSchema" where
  "set_AnyOf v (Node sc defs props ap pn deps pp cont ai anyof allof oneof nt cnd thn els conn) =
     Node sc defs props ap pn deps pp cont ai v allof oneof nt cnd thn els conn"

fun set_AllOf :: "JsonSchema option list option \<Rightarrow> JsonSchema \<Rightarrow> JsonSchema" where
  "set_AllOf v (Node sc defs props ap pn deps pp cont ai anyof allof oneof nt cnd thn els conn) =
     Node sc defs props ap pn deps pp cont ai anyof v oneof nt cnd thn els conn"

fun set_OneOf :: "JsonSchema option list option \<Rightarrow> JsonSchema \<Rightarrow> JsonSchema" where
  "set_OneOf v (Node sc defs props ap pn deps pp cont ai anyof allof oneof nt cnd thn els conn) =
     Node sc defs props ap pn deps pp cont ai anyof allof v nt cnd thn els conn"

fun set_Not :: "JsonSchema option \<Rightarrow> JsonSchema \<Rightarrow> JsonSchema" where
  "set_Not v (Node sc defs props ap pn deps pp cont ai anyof allof oneof nt cnd thn els conn) =
     Node sc defs props ap pn deps pp cont ai anyof allof oneof v cnd thn els conn"

fun set_If :: "JsonSchema option \<Rightarrow> JsonSchema \<Rightarrow> JsonSchema" where
  "set_If v (Node sc defs props ap pn deps pp cont ai anyof allof oneof nt cnd thn els conn) =
     Node sc defs props ap pn deps pp cont ai anyof allof oneof nt v thn els conn"

fun set_Then :: "JsonSchema option \<Rightarrow> JsonSchema \<Rightarrow> JsonSchema" where
  "set_Then v (Node sc defs props ap pn deps pp cont ai anyof allof oneof nt cnd thn els conn) =
     Node sc defs props ap pn deps pp cont ai anyof allof oneof nt cnd v els conn"

fun set_Else :: "JsonSchema option \<Rightarrow> JsonSchema \<Rightarrow> JsonSchema" where
  "set_Else v (Node sc defs props ap pn deps pp cont ai anyof allof oneof nt cnd thn els conn) =
     Node sc defs props ap pn deps pp cont ai anyof allof oneof nt cnd thn v conn"

fun set_connected :: "bool \<Rightarrow> JsonSchema \<Rightarrow> JsonSchema" where
  "set_connected v (Node sc defs props ap pn deps pp cont ai anyof allof oneof nt cnd thn els conn) =
     Node sc defs props ap pn deps pp cont ai anyof allof oneof nt cnd thn els v"



subsection \<open>Encoding a compiled node back to JSON\<close>

text \<open>
  \<^verbatim>\<open>json.Marshal\<close> of a \<^verbatim>\<open>JsonSchema\<close>: the fields in declaration order, each left out
  when empty (\<^verbatim>\<open>omitempty\<close>: a false boolean, a nil pointer, an empty slice or map).
  \<^verbatim>\<open>_type\<close> has a \<^verbatim>\<open>MarshalJSON\<close> and is written as it is; \<^verbatim>\<open>_const\<close> and
  \<^verbatim>\<open>items\<close> are byte slices without one, which \<^verbatim>\<open>encoding/json\<close> writes as a
  base64 string. The annotation fields, which the node does not keep, are left out.
\<close>

definition entry :: "string \<Rightarrow> json option \<Rightarrow> (string \<times> json) list" where
  "entry name v = (case v of None \<Rightarrow> [] | Some j \<Rightarrow> [(name, j)])"

definition nonEmpty :: "'a list option \<Rightarrow> 'a list option" where
  "nonEmpty xs = (case xs of Some (y # ys) \<Rightarrow> Some (y # ys) | _ \<Rightarrow> None)"

definition bytesString :: "golib \<Rightarrow> json \<Rightarrow> json" where
  "bytesString L raw = JStr (base64 L (jsonMarshal L raw))"

definition JInt :: "int \<Rightarrow> json" where
  "JInt i = JNum (of_int i)"

lemma nonEmptyD: "nonEmpty xs = Some a \<Longrightarrow> xs = Some a"
  by (auto simp: nonEmpty_def split: option.splits list.splits)

lemma size_map_child:
  "(k, Some (s::JsonSchema)) \<in> set m \<Longrightarrow>
   size s < size_list (size_prod (\<lambda>x. 0) (size_option size)) m"
  by (induction m) auto

lemma size_dep_child:
  "(k, Inr (s::JsonSchema)) \<in> set m \<Longrightarrow>
   size s < size_list (size_prod (\<lambda>x. 0) (size_sum (\<lambda>x. 0) size)) m"
  by (induction m) auto

lemma size_list_child:
  "Some (s::JsonSchema) \<in> set l \<Longrightarrow> size s < size_list (size_option size) l"
  by (induction l) auto

function marshalSchema :: "golib \<Rightarrow> JsonSchema \<Rightarrow> json" where
  "marshalSchema L (Node sc defs props ap pn deps pp cont ai anyof allof oneof nt cnd thn els conn) =
     JObj
       (entry ''rejectAll'' (if RejectAll sc then Some (JBool True) else None) @
        entry ''$ref'' (map_option JStr (Ref sc)) @
        entry ''$id'' (map_option JStr (Id' sc)) @
        entry ''type'' (Type sc) @
        entry ''enum'' (map_option JArr (nonEmpty (Enum sc))) @
        entry ''const'' (map_option (bytesString L) (Const sc)) @
        entry ''definitions''
          (map_option
             (\<lambda>m. JObj (map (\<lambda>(k, c). (k, case c of None \<Rightarrow> JNull | Some s \<Rightarrow> marshalSchema L s)) m))
             (nonEmpty defs)) @
        entry ''properties''
          (map_option
             (\<lambda>m. JObj (map (\<lambda>(k, c). (k, case c of None \<Rightarrow> JNull | Some s \<Rightarrow> marshalSchema L s)) m))
             (nonEmpty props)) @
        entry ''additionalProperties'' (map_option (marshalSchema L) ap) @
        entry ''required'' (map_option (\<lambda>r. JArr (map JStr r)) (nonEmpty (Required sc))) @
        entry ''propertyNames'' (map_option (marshalSchema L) pn) @
        entry ''dependencies''
          (map_option
             (\<lambda>m. JObj (map (\<lambda>(k, d). (k, case d of Inl j \<Rightarrow> j | Inr s \<Rightarrow> marshalSchema L s)) m))
             (nonEmpty deps)) @
        entry ''patternProperties''
          (map_option
             (\<lambda>m. JObj (map (\<lambda>(k, c). (k, case c of None \<Rightarrow> JNull | Some s \<Rightarrow> marshalSchema L s)) m))
             (nonEmpty pp)) @
        entry ''items'' (map_option (bytesString L) (Items sc)) @
        entry ''contains'' (map_option (marshalSchema L) cont) @
        entry ''additionalItems'' (map_option (marshalSchema L) ai) @
        entry ''minItems'' (map_option JInt (MinItems sc)) @
        entry ''maxItems'' (map_option JInt (MaxItems sc)) @
        entry ''uniqueItems'' (map_option JBool (UniqueItems sc)) @
        entry ''minLength'' (map_option JInt (MinLength sc)) @
        entry ''maxLength'' (map_option JInt (MaxLength sc)) @
        entry ''pattern'' (map_option JStr (Pattern sc)) @
        entry ''format'' (map_option JStr (Format sc)) @
        entry ''multipleOf'' (map_option JNum (MultipleOf sc)) @
        entry ''minimum'' (map_option JNum (Minimum sc)) @
        entry ''maximum'' (map_option JNum (Maximum sc)) @
        entry ''exclusiveMinimum'' (map_option JNum (ExclusiveMinimum sc)) @
        entry ''exclusiveMaximum'' (map_option JNum (ExclusiveMaximum sc)) @
        entry ''minProperties'' (map_option JInt (MinProperties sc)) @
        entry ''maxProperties'' (map_option JInt (MaxProperties sc)) @
        entry ''anyOf''
          (map_option
             (\<lambda>l. JArr (map (\<lambda>c. case c of None \<Rightarrow> JNull | Some s \<Rightarrow> marshalSchema L s) l))
             (nonEmpty anyof)) @
        entry ''allOf''
          (map_option
             (\<lambda>l. JArr (map (\<lambda>c. case c of None \<Rightarrow> JNull | Some s \<Rightarrow> marshalSchema L s) l))
             (nonEmpty allof)) @
        entry ''oneOf''
          (map_option
             (\<lambda>l. JArr (map (\<lambda>c. case c of None \<Rightarrow> JNull | Some s \<Rightarrow> marshalSchema L s) l))
             (nonEmpty oneof)) @
        entry ''not'' (map_option (marshalSchema L) nt) @
        entry ''if'' (map_option (marshalSchema L) cnd) @
        entry ''then'' (map_option (marshalSchema L) thn) @
        entry ''else'' (map_option (marshalSchema L) els))"
  by pat_completeness auto

termination
proof (relation "measure (\<lambda>(L, s). size s)")
  show "wf (measure (\<lambda>(L, s). size s))" by simp
qed (auto dest!: nonEmptyD dest: size_map_child size_dep_child size_list_child)


subsection \<open>Nesting depth, the measure of the compile walk\<close>

definition maxl :: "nat list \<Rightarrow> nat" where
  "maxl xs = foldr max xs 0"

lemma maxl_ge: "x \<in> set xs \<Longrightarrow> x \<le> maxl xs"
  by (induction xs) (auto simp: maxl_def)

lemma maxl_le: "(\<And>x. x \<in> set xs \<Longrightarrow> x \<le> b) \<Longrightarrow> maxl xs \<le> b"
  by (induction xs) (auto simp: maxl_def)

lemma less_Suc_maxl: "x \<in> set xs \<Longrightarrow> x < Suc (maxl xs)"
  by (simp add: less_Suc_eq_le maxl_ge)

fun jdepth :: "json \<Rightarrow> nat" where
  "jdepth (JArr xs) = Suc (maxl (map jdepth xs))"
| "jdepth (JObj kvs) = Suc (maxl (map (\<lambda>(k, v). jdepth v) kvs))"
| "jdepth _ = Suc 0"

function sdepth :: "JsonSchema \<Rightarrow> nat" where
  "sdepth (Node sc defs props ap pn deps pp cont ai anyof allof oneof nt cnd thn els conn) =
     Suc (maxl
       ((case Items sc of None \<Rightarrow> [] | Some j \<Rightarrow> [jdepth j]) @
        (case defs of None \<Rightarrow> []
         | Some m \<Rightarrow> map (\<lambda>(k, c). case c of None \<Rightarrow> 0 | Some s \<Rightarrow> sdepth s) m) @
        (case props of None \<Rightarrow> []
         | Some m \<Rightarrow> map (\<lambda>(k, c). case c of None \<Rightarrow> 0 | Some s \<Rightarrow> sdepth s) m) @
        (case ap of None \<Rightarrow> [] | Some s \<Rightarrow> [sdepth s]) @
        (case pn of None \<Rightarrow> [] | Some s \<Rightarrow> [sdepth s]) @
        (case deps of None \<Rightarrow> []
         | Some m \<Rightarrow> map (\<lambda>(k, d). case d of Inl j \<Rightarrow> jdepth j | Inr s \<Rightarrow> sdepth s) m) @
        (case pp of None \<Rightarrow> []
         | Some m \<Rightarrow> map (\<lambda>(k, c). case c of None \<Rightarrow> 0 | Some s \<Rightarrow> sdepth s) m) @
        (case cont of None \<Rightarrow> [] | Some s \<Rightarrow> [sdepth s]) @
        (case ai of None \<Rightarrow> [] | Some s \<Rightarrow> [sdepth s]) @
        (case anyof of None \<Rightarrow> []
         | Some l \<Rightarrow> map (\<lambda>c. case c of None \<Rightarrow> 0 | Some s \<Rightarrow> sdepth s) l) @
        (case allof of None \<Rightarrow> []
         | Some l \<Rightarrow> map (\<lambda>c. case c of None \<Rightarrow> 0 | Some s \<Rightarrow> sdepth s) l) @
        (case oneof of None \<Rightarrow> []
         | Some l \<Rightarrow> map (\<lambda>c. case c of None \<Rightarrow> 0 | Some s \<Rightarrow> sdepth s) l) @
        (case nt of None \<Rightarrow> [] | Some s \<Rightarrow> [sdepth s]) @
        (case cnd of None \<Rightarrow> [] | Some s \<Rightarrow> [sdepth s]) @
        (case thn of None \<Rightarrow> [] | Some s \<Rightarrow> [sdepth s]) @
        (case els of None \<Rightarrow> [] | Some s \<Rightarrow> [sdepth s])))"
  by pat_completeness auto

termination
proof (relation "measure size")
  show "wf (measure size)" by simp
qed (auto dest: size_map_child size_dep_child size_list_child)

lemma sdepth_ptr:
  "AdditionalProperties js = Some c \<or> PropertyNames js = Some c \<or> Contains js = Some c \<or>
   AdditionalItems js = Some c \<or> Not' js = Some c \<or> If' js = Some c \<or> Then js = Some c \<or>
   Else js = Some c \<Longrightarrow> sdepth c < sdepth js"
  by (cases js) (auto intro!: less_Suc_maxl)

lemma sdepth_entry:
  assumes "Definitions js = Some m \<or> Properties js = Some m \<or> PatternProperties js = Some m"
    and "(k, Some c) \<in> set m"
  shows "sdepth c < sdepth js"
proof -
  have "sdepth c \<in> set (map (\<lambda>(k, c). case c of None \<Rightarrow> 0 | Some s \<Rightarrow> sdepth s) m)"
    using assms(2) by force
  with assms(1) show ?thesis
    by (cases js) (auto intro!: less_Suc_maxl)
qed

lemma sdepth_elem:
  assumes "AnyOf js = Some l \<or> AllOf js = Some l \<or> OneOf js = Some l"
    and "Some c \<in> set l"
  shows "sdepth c < sdepth js"
proof -
  have "sdepth c \<in> set (map (\<lambda>c. case c of None \<Rightarrow> 0 | Some s \<Rightarrow> sdepth s) l)"
    using assms(2) by force
  with assms(1) show ?thesis
    by (cases js) (auto intro!: less_Suc_maxl)
qed

lemma sdepth_dependency:
  assumes "Dependencies js = Some m" and "(k, Inl j) \<in> set m"
  shows "jdepth j < sdepth js"
proof -
  have "jdepth j \<in> set (map (\<lambda>(k, d). case d of Inl j \<Rightarrow> jdepth j | Inr s \<Rightarrow> sdepth s) m)"
    using assms(2) by force
  with assms(1) show ?thesis
    by (cases js) (auto intro!: less_Suc_maxl)
qed

lemma sdepth_items:
  "Items (scalars js) = Some j \<Longrightarrow> jdepth j < sdepth js"
  by (cases js) (auto intro!: less_Suc_maxl)

lemma jdepth_elem: "x \<in> set xs \<Longrightarrow> jdepth x < jdepth (JArr xs)"
  by (auto intro!: less_Suc_maxl)

lemma jdepth_entry: "(k, v) \<in> set kvs \<Longrightarrow> jdepth v < jdepth (JObj kvs)"
  by (force intro!: less_Suc_maxl)

lemma jdepth_map_of: "map_of kvs k = Some v \<Longrightarrow> jdepth v < jdepth (JObj kvs)"
  by (rule jdepth_entry[of k]) (rule map_of_SomeD)


lemma decodeSchemaPtr_SomeD:
  "decodeSchemaPtr f v = Inr (Some c) \<Longrightarrow> \<exists>j. v = Some j \<and> f j = Inr c"
  by (auto simp: decodeSchemaPtr_def bindE_def split: option.splits json.splits sum.splits)

lemma decodeSchemaEntries_D:
  "decodeSchemaEntries f ps = Inr m \<Longrightarrow> (k, Some c) \<in> set m \<Longrightarrow>
   \<exists>j. (k, j) \<in> set ps \<and> f j = Inr c"
proof (induction ps arbitrary: m)
  case Nil
  then show ?case by simp
next
  case (Cons p ps)
  obtain k' j' where p: "p = (k', j')" by (cases p)
  from Cons.prems(1) obtain c' m' where
    c': "decodeSchemaPtr f (Some j') = Inr c'" and m': "decodeSchemaEntries f ps = Inr m'"
    and m: "m = (k', c') # m'"
    by (auto simp: p bindE_def split: sum.splits)
  show ?case
  proof (cases "(k, Some c) \<in> set m'")
    case True
    from Cons.IH[OF m' True] show ?thesis by auto
  next
    case False
    with Cons.prems(2) m have "k = k'" "c' = Some c" by auto
    with c' decodeSchemaPtr_SomeD[of f "Some j'" c] show ?thesis by (auto simp: p)
  qed
qed

lemma decodeSchemaMap_D:
  "decodeSchemaMap f v = Inr (Some m) \<Longrightarrow> (k, Some c) \<in> set m \<Longrightarrow>
   \<exists>ps j. v = Some (JObj ps) \<and> (k, j) \<in> set ps \<and> f j = Inr c"
  by (auto simp: decodeSchemaMap_def bindE_def split: option.splits json.splits sum.splits
      dest: decodeSchemaEntries_D)

lemma decodeSchemaElems_D:
  "decodeSchemaElems f js = Inr l \<Longrightarrow> Some c \<in> set l \<Longrightarrow> \<exists>j. j \<in> set js \<and> f j = Inr c"
proof (induction js arbitrary: l)
  case Nil
  then show ?case by simp
next
  case (Cons j' js)
  from Cons.prems(1) obtain c' l' where
    c': "decodeSchemaPtr f (Some j') = Inr c'" and l': "decodeSchemaElems f js = Inr l'"
    and l: "l = c' # l'"
    by (auto simp: bindE_def split: sum.splits)
  show ?case
  proof (cases "Some c \<in> set l'")
    case True
    from Cons.IH[OF l' True] show ?thesis by auto
  next
    case False
    with Cons.prems(2) l have "c' = Some c" by auto
    with c' decodeSchemaPtr_SomeD[of f "Some j'" c] show ?thesis by auto
  qed
qed

lemma decodeSchemaList_D:
  "decodeSchemaList f v = Inr (Some l) \<Longrightarrow> Some c \<in> set l \<Longrightarrow>
   \<exists>js j. v = Some (JArr js) \<and> j \<in> set js \<and> f j = Inr c"
  by (auto simp: decodeSchemaList_def bindE_def split: option.splits json.splits sum.splits
      dest: decodeSchemaElems_D)

lemma decodeDependencies_D:
  "decodeDependencies v = Inr (Some m) \<Longrightarrow> (k, d) \<in> set m \<Longrightarrow>
   \<exists>ds j. v = Some (JObj ds) \<and> d = Inl j \<and> (k, j) \<in> set ds"
  by (auto simp: decodeDependencies_def split: option.splits json.splits)

lemma decodeScalars_Items: "decodeScalars kvs = Inr sc \<Longrightarrow> Items sc = map_of kvs ''items''"
  by (auto simp: decodeScalars_def bindE_def split: sum.splits)

lemma UnmarshalJSON_JObj:
  assumes "UnmarshalJSON (JObj kvs) = Inr s"
  shows "decodeScalars kvs = Inr (scalars s)"
    and "decodeSchemaMap UnmarshalJSON (map_of kvs ''definitions'') = Inr (Definitions s)"
    and "decodeSchemaMap UnmarshalJSON (map_of kvs ''properties'') = Inr (Properties s)"
    and "decodeSchemaPtr UnmarshalJSON (map_of kvs ''additionalProperties'') =
           Inr (AdditionalProperties s)"
    and "decodeSchemaPtr UnmarshalJSON (map_of kvs ''propertyNames'') = Inr (PropertyNames s)"
    and "decodeDependencies (map_of kvs ''dependencies'') = Inr (Dependencies s)"
    and "decodeSchemaMap UnmarshalJSON (map_of kvs ''patternProperties'') =
           Inr (PatternProperties s)"
    and "decodeSchemaPtr UnmarshalJSON (map_of kvs ''contains'') = Inr (Contains s)"
    and "decodeSchemaPtr UnmarshalJSON (map_of kvs ''additionalItems'') = Inr (AdditionalItems s)"
    and "decodeSchemaList UnmarshalJSON (map_of kvs ''anyOf'') = Inr (AnyOf s)"
    and "decodeSchemaList UnmarshalJSON (map_of kvs ''allOf'') = Inr (AllOf s)"
    and "decodeSchemaList UnmarshalJSON (map_of kvs ''oneOf'') = Inr (OneOf s)"
    and "decodeSchemaPtr UnmarshalJSON (map_of kvs ''not'') = Inr (Not' s)"
    and "decodeSchemaPtr UnmarshalJSON (map_of kvs ''if'') = Inr (If' s)"
    and "decodeSchemaPtr UnmarshalJSON (map_of kvs ''then'') = Inr (Then s)"
    and "decodeSchemaPtr UnmarshalJSON (map_of kvs ''else'') = Inr (Else s)"
    and "connected s = False"
  using assms by (auto simp: bindE_def split: sum.splits)


definition itemDepths :: "json option \<Rightarrow> nat list" where
  "itemDepths i = (case i of None \<Rightarrow> [] | Some j \<Rightarrow> [jdepth j])"

definition ptrDepths :: "JsonSchema option \<Rightarrow> nat list" where
  "ptrDepths p = (case p of None \<Rightarrow> [] | Some s \<Rightarrow> [sdepth s])"

definition mapDepths :: "(string \<times> JsonSchema option) list option \<Rightarrow> nat list" where
  "mapDepths m =
     (case m of None \<Rightarrow> []
      | Some m \<Rightarrow> map (\<lambda>(k, c). case c of None \<Rightarrow> 0 | Some s \<Rightarrow> sdepth s) m)"

definition listDepths :: "JsonSchema option list option \<Rightarrow> nat list" where
  "listDepths l =
     (case l of None \<Rightarrow> []
      | Some l \<Rightarrow> map (\<lambda>c. case c of None \<Rightarrow> 0 | Some s \<Rightarrow> sdepth s) l)"

definition depDepths :: "(string \<times> (json + JsonSchema)) list option \<Rightarrow> nat list" where
  "depDepths m =
     (case m of None \<Rightarrow> []
      | Some m \<Rightarrow> map (\<lambda>(k, d). case d of Inl j \<Rightarrow> jdepth j | Inr s \<Rightarrow> sdepth s) m)"

lemma sdepth_Node:
  "sdepth (Node sc defs props ap pn deps pp cont ai anyof allof oneof nt cnd thn els conn) =
     Suc (maxl
       (itemDepths (Items sc) @ mapDepths defs @ mapDepths props @ ptrDepths ap @ ptrDepths pn @
        depDepths deps @ mapDepths pp @ ptrDepths cont @ ptrDepths ai @ listDepths anyof @
        listDepths allof @ listDepths oneof @ ptrDepths nt @ ptrDepths cnd @ ptrDepths thn @
        ptrDepths els))"
  by (simp add: itemDepths_def mapDepths_def ptrDepths_def depDepths_def listDepths_def)

lemma ptrDepths_D: "x \<in> set (ptrDepths p) \<Longrightarrow> \<exists>c. p = Some c \<and> x = sdepth c"
  by (auto simp: ptrDepths_def split: option.splits)

lemma mapDepths_D:
  "x \<in> set (mapDepths m) \<Longrightarrow>
   x = 0 \<or> (\<exists>l k c. m = Some l \<and> (k, Some c) \<in> set l \<and> x = sdepth c)"
  by (fastforce simp: mapDepths_def split: option.splits)

lemma listDepths_D:
  "x \<in> set (listDepths m) \<Longrightarrow>
   x = 0 \<or> (\<exists>l c. m = Some l \<and> Some c \<in> set l \<and> x = sdepth c)"
  by (fastforce simp: listDepths_def split: option.splits)

lemma depDepths_D:
  "x \<in> set (depDepths m) \<Longrightarrow>
   \<exists>l k d. m = Some l \<and> (k, d) \<in> set l \<and>
     x = (case d of Inl j \<Rightarrow> jdepth j | Inr s \<Rightarrow> sdepth s)"
  by (fastforce simp: depDepths_def split: option.splits)

lemma sdepth_UnmarshalJSON: "UnmarshalJSON j = Inr s \<Longrightarrow> sdepth s \<le> jdepth j"
proof (induction j arbitrary: s rule: measure_induct_rule[of size])
  case (less j)
  show ?case
  proof (cases j)
    case (JObj kvs)
    note U = UnmarshalJSON_JObj[OF less.prems[unfolded JObj]]
    define B where "B = maxl (map (\<lambda>(k, v). jdepth v) kvs)"
    have val: "jdepth v \<le> B" if "map_of kvs k = Some v" for k v
      using jdepth_map_of[OF that] by (simp add: B_def)
    have ih: "sdepth c \<le> jdepth v" if "size v < size j" "UnmarshalJSON v = Inr c" for v c
      using less.IH[OF that] .
    have ptr: "x \<le> B"
      if "decodeSchemaPtr UnmarshalJSON (map_of kvs k) = Inr p" "x \<in> set (ptrDepths p)"
      for k p x
    proof -
      from ptrDepths_D[OF that(2)] obtain c where c: "p = Some c" "x = sdepth c" by blast
      from decodeSchemaPtr_SomeD[OF that(1)[unfolded c(1)]] obtain v where
        v: "map_of kvs k = Some v" "UnmarshalJSON v = Inr c" by blast
      have "sdepth c \<le> jdepth v"
        using ih[OF _ v(2)] size_map_of[OF v(1)] by (simp add: JObj)
      with val[OF v(1)] show ?thesis by (simp add: c(2))
    qed
    have ent: "x \<le> B"
      if "decodeSchemaMap UnmarshalJSON (map_of kvs k) = Inr m" "x \<in> set (mapDepths m)"
      for k m x
    proof -
      from mapDepths_D[OF that(2)] consider "x = 0"
        | l k' c where "m = Some l" "(k', Some c) \<in> set l" "x = sdepth c" by blast
      then show ?thesis
      proof cases
        case 1
        then show ?thesis by simp
      next
        case 2
        from decodeSchemaMap_D[OF that(1)[unfolded 2(1)] 2(2)] obtain ps v where
          v: "map_of kvs k = Some (JObj ps)" "(k', v) \<in> set ps" "UnmarshalJSON v = Inr c"
          by blast
        have "size v < size j"
          using size_entry[OF v(2)] size_map_of[OF v(1)] by (simp add: JObj)
        from ih[OF this v(3)] jdepth_entry[OF v(2)] val[OF v(1)] show ?thesis
          by (simp add: 2(3))
      qed
    qed
    have elt: "x \<le> B"
      if "decodeSchemaList UnmarshalJSON (map_of kvs k) = Inr m" "x \<in> set (listDepths m)"
      for k m x
    proof -
      from listDepths_D[OF that(2)] consider "x = 0"
        | l c where "m = Some l" "Some c \<in> set l" "x = sdepth c" by blast
      then show ?thesis
      proof cases
        case 1
        then show ?thesis by simp
      next
        case 2
        from decodeSchemaList_D[OF that(1)[unfolded 2(1)] 2(2)] obtain js v where
          v: "map_of kvs k = Some (JArr js)" "v \<in> set js" "UnmarshalJSON v = Inr c"
          by blast
        have "size v < size j"
          using size_elem[OF v(2)] size_map_of[OF v(1)] by (simp add: JObj)
        from ih[OF this v(3)] jdepth_elem[OF v(2)] val[OF v(1)] show ?thesis
          by (simp add: 2(3))
      qed
    qed
    have dep: "x \<le> B"
      if "decodeDependencies (map_of kvs ''dependencies'') = Inr m" "x \<in> set (depDepths m)"
      for m x
    proof -
      from depDepths_D[OF that(2)] obtain l k d where
        d: "m = Some l" "(k, d) \<in> set l"
           "x = (case d of Inl j \<Rightarrow> jdepth j | Inr s \<Rightarrow> sdepth s)" by blast
      from decodeDependencies_D[OF that(1)[unfolded d(1)] d(2)] obtain ds v where
        v: "map_of kvs ''dependencies'' = Some (JObj ds)" "d = Inl v" "(k, v) \<in> set ds"
        by blast
      from jdepth_entry[OF v(3)] val[OF v(1)] show ?thesis by (simp add: d(3) v(2))
    qed
    have itm: "x \<le> B" if "x \<in> set (itemDepths (Items (scalars s)))" for x
      using that decodeScalars_Items[OF U(1)] val
      by (auto simp: itemDepths_def split: option.splits)
    obtain sc defs props ap pn deps pp cont ai anyof allof oneof nt cnd thn els conn where
      s: "s = Node sc defs props ap pn deps pp cont ai anyof allof oneof nt cnd thn els conn"
      by (cases s)
    note U' = U[unfolded s JsonSchema.sel]
    have "sdepth s \<le> Suc B"
      unfolding s sdepth_Node Suc_le_mono
    proof (rule maxl_le)
      fix x
      assume "x \<in> set
        (itemDepths (Items sc) @ mapDepths defs @ mapDepths props @ ptrDepths ap @
         ptrDepths pn @ depDepths deps @ mapDepths pp @ ptrDepths cont @ ptrDepths ai @
         listDepths anyof @ listDepths allof @ listDepths oneof @ ptrDepths nt @
         ptrDepths cnd @ ptrDepths thn @ ptrDepths els)"
      then have "x \<in> set (itemDepths (Items sc)) \<or> x \<in> set (mapDepths defs) \<or>
        x \<in> set (mapDepths props) \<or> x \<in> set (ptrDepths ap) \<or> x \<in> set (ptrDepths pn) \<or>
        x \<in> set (depDepths deps) \<or> x \<in> set (mapDepths pp) \<or> x \<in> set (ptrDepths cont) \<or>
        x \<in> set (ptrDepths ai) \<or> x \<in> set (listDepths anyof) \<or> x \<in> set (listDepths allof) \<or>
        x \<in> set (listDepths oneof) \<or> x \<in> set (ptrDepths nt) \<or> x \<in> set (ptrDepths cnd) \<or>
        x \<in> set (ptrDepths thn) \<or> x \<in> set (ptrDepths els)"
        by simp
      then show "x \<le> B"
        using itm[unfolded s JsonSchema.sel] ent[OF U'(2)] ent[OF U'(3)] ptr[OF U'(4)]
          ptr[OF U'(5)] dep[OF U'(6)] ent[OF U'(7)] ptr[OF U'(8)] ptr[OF U'(9)]
          elt[OF U'(10)] elt[OF U'(11)] elt[OF U'(12)] ptr[OF U'(13)] ptr[OF U'(14)]
          ptr[OF U'(15)] ptr[OF U'(16)]
        by blast
    qed
    then show ?thesis by (simp add: JObj B_def)
  next
    case (JBool b)
    with less.prems show ?thesis
      by (auto simp: emptySchema_def rejectAllSchema_def emptyScalars_def maxl_def
          split: if_splits)
  qed (use less.prems in auto)
qed

declare UnmarshalJSON.simps [simp del]

subsection \<open>The compile walk\<close>

text \<open>
  \<^verbatim>\<open>connectRelatedKeywords\<close> stores, in the \<^verbatim>\<open>additionalProperties\<close>,
  \<^verbatim>\<open>additionalItems\<close> and \<^verbatim>\<open>if\<close> children of a node, pointers to the sibling
  fields of that node that are present. The fields are read through the pointers at
  validation time, so the model marks the node and reads the fields of the node itself
  (\<open>sibling\<close>).
\<close>

definition connectRelatedKeywords :: "JsonSchema \<Rightarrow> JsonSchema" where
  "connectRelatedKeywords js = set_connected True js"

text \<open>
  \<^verbatim>\<open>scanSchema\<close> changes the nodes in place and calls \<^verbatim>\<open>mapSubSchema\<close> on each node
  before it walks the children of the node. The registry holds pointers, so what it
  shows of a node is the node as the walk left it. The model returns the node after the
  walk, the calls of \<^verbatim>\<open>mapSubSchema\<close> in the order they were made (each with the node
  as the walk left it) and the error returned; \<open>NewRootJsonSchema\<close> applies the calls to
  the registry.

  A step of the walk goes on (\<open>Continue\<close>) or makes \<^verbatim>\<open>scanSchema\<close> return at once, with
  an error or with \<^verbatim>\<open>nil\<close>.
\<close>

datatype status = Continue | Return "error option"

type_synonym visits = "(string \<times> JsonSchema) list"

type_synonym 'a step = "('a \<times> visits \<times> status) outcome"

type_synonym scanner = "string \<Rightarrow> JsonSchema \<Rightarrow> (JsonSchema \<times> visits \<times> error option) outcome"

definition andThen ::
  "'a step \<Rightarrow> ('a \<Rightarrow> JsonSchema \<Rightarrow> JsonSchema) \<Rightarrow>
   (JsonSchema \<Rightarrow> (JsonSchema \<times> visits \<times> error option) outcome) \<Rightarrow> JsonSchema \<Rightarrow>
   (JsonSchema \<times> visits \<times> error option) outcome" where
  "andThen step store rest js =
     (case step of
        Panics m \<Rightarrow> Panics m
      | Returns (v, vs, Return err) \<Rightarrow> Returns (store v js, vs, err)
      | Returns (v, vs, Continue) \<Rightarrow>
          (case rest (store v js) of
             Panics m \<Rightarrow> Panics m
           | Returns (js', vs', err) \<Rightarrow> Returns (js', vs @ vs', err)))"

text \<open>A child held by pointer; the walk is not started on a \<^verbatim>\<open>nil\<close> field.\<close>

definition scanPtr :: "scanner \<Rightarrow> string \<Rightarrow> JsonSchema option \<Rightarrow> JsonSchema option step" where
  "scanPtr scan path child =
     (case child of
        None \<Rightarrow> Returns (None, [], Continue)
      | Some s \<Rightarrow>
          (case scan path s of
             Panics m \<Rightarrow> Panics m
           | Returns (s', vs, Some err) \<Rightarrow> Returns (Some s', vs, Return (Some err))
           | Returns (s', vs, None) \<Rightarrow> Returns (Some s', vs, Continue)))"

text \<open>
  The children of a map of schemas. A \<^verbatim>\<open>nil\<close> value of the map (a JSON null) is walked
  like any other, and \<^verbatim>\<open>connectRelatedKeywords\<close> dereferences it.
\<close>

fun scanEntries ::
  "scanner \<Rightarrow> string \<Rightarrow> (string \<times> JsonSchema option) list \<Rightarrow>
   (string \<times> JsonSchema option) list step" where
  "scanEntries scan prefix [] = Returns ([], [], Continue)"
| "scanEntries scan prefix ((key, child) # rest) =
     (case child of
        None \<Rightarrow> Panics nilDereference
      | Some s \<Rightarrow>
          (case scan (prefix @ key) s of
             Panics m \<Rightarrow> Panics m
           | Returns (s', vs, Some err) \<Rightarrow> Returns ((key, Some s') # rest, vs, Return (Some err))
           | Returns (s', vs, None) \<Rightarrow>
               (case scanEntries scan prefix rest of
                  Panics m \<Rightarrow> Panics m
                | Returns (rest', vs', st) \<Rightarrow> Returns ((key, Some s') # rest', vs @ vs', st))))"

definition scanMap ::
  "scanner \<Rightarrow> string \<Rightarrow> (string \<times> JsonSchema option) list option \<Rightarrow>
   (string \<times> JsonSchema option) list option step" where
  "scanMap scan prefix field =
     (case field of
        None \<Rightarrow> Returns (None, [], Continue)
      | Some m \<Rightarrow>
          (case scanEntries scan prefix m of
             Panics msg \<Rightarrow> Panics msg
           | Returns (m', vs, st) \<Rightarrow> Returns (Some m', vs, st)))"

fun scanElems ::
  "scanner \<Rightarrow> string \<Rightarrow> nat \<Rightarrow> JsonSchema option list \<Rightarrow> JsonSchema option list step" where
  "scanElems scan prefix index [] = Returns ([], [], Continue)"
| "scanElems scan prefix index (child # rest) =
     (case child of
        None \<Rightarrow> Panics nilDereference
      | Some s \<Rightarrow>
          (case scan (prefix @ Itoa (int index)) s of
             Panics m \<Rightarrow> Panics m
           | Returns (s', vs, Some err) \<Rightarrow> Returns (Some s' # rest, vs, Return (Some err))
           | Returns (s', vs, None) \<Rightarrow>
               (case scanElems scan prefix (Suc index) rest of
                  Panics m \<Rightarrow> Panics m
                | Returns (rest', vs', st) \<Rightarrow> Returns (Some s' # rest', vs @ vs', st))))"

definition scanList ::
  "scanner \<Rightarrow> string \<Rightarrow> JsonSchema option list option \<Rightarrow> JsonSchema option list option step" where
  "scanList scan prefix field =
     (case field of
        None \<Rightarrow> Returns (None, [], Continue)
      | Some l \<Rightarrow>
          (case scanElems scan prefix 0 l of
             Panics msg \<Rightarrow> Panics msg
           | Returns (l', vs, st) \<Rightarrow> Returns (Some l', vs, st)))"

text \<open>
  The dependencies that are JSON objects are decoded, walked and stored back as schemas;
  the others are left as they are.
\<close>

fun scanDependencyEntries ::
  "scanner \<Rightarrow> string \<Rightarrow> (string \<times> (json + JsonSchema)) list \<Rightarrow>
   (string \<times> (json + JsonSchema)) list step" where
  "scanDependencyEntries scan schemaPath [] = Returns ([], [], Continue)"
| "scanDependencyEntries scan schemaPath ((key, value) # rest) =
     (case value of
        Inl (JObj v) \<Rightarrow>
          (case UnmarshalJSON (JObj v) of
             Inl err \<Rightarrow>
               Returns ((key, value) # rest, [],
                        Return (Some (SchemaCompilationError schemaPath (Error err))))
           | Inr subSchema \<Rightarrow>
               (case scan (schemaPath @ ''/dependencies'' @ key) subSchema of
                  Panics m \<Rightarrow> Panics m
                | Returns (s', vs, Some err) \<Rightarrow> Returns ((key, value) # rest, vs, Return (Some err))
                | Returns (s', vs, None) \<Rightarrow>
                    (case scanDependencyEntries scan schemaPath rest of
                       Panics m \<Rightarrow> Panics m
                     | Returns (rest', vs', st) \<Rightarrow> Returns ((key, Inr s') # rest', vs @ vs', st))))
      | _ \<Rightarrow>
          (case scanDependencyEntries scan schemaPath rest of
             Panics m \<Rightarrow> Panics m
           | Returns (rest', vs', st) \<Rightarrow> Returns ((key, value) # rest', vs', st)))"

definition scanDependencies ::
  "scanner \<Rightarrow> string \<Rightarrow> (string \<times> (json + JsonSchema)) list option \<Rightarrow>
   (string \<times> (json + JsonSchema)) list option step" where
  "scanDependencies scan schemaPath field =
     (case field of
        None \<Rightarrow> Returns (None, [], Continue)
      | Some m \<Rightarrow>
          (case scanDependencyEntries scan schemaPath m of
             Panics msg \<Rightarrow> Panics msg
           | Returns (m', vs, st) \<Rightarrow> Returns (Some m', vs, st)))"

text \<open>
  The loop over an array in \<^verbatim>\<open>items\<close>. When the walk of an element returns an error,
  the loop leaves \<^verbatim>\<open>scanSchema\<close> with \<^verbatim>\<open>return nil\<close>.
\<close>

fun scanItemsArray :: "scanner \<Rightarrow> string \<Rightarrow> nat \<Rightarrow> json list \<Rightarrow> JsonSchema list step" where
  "scanItemsArray scan schemaPath index [] = Returns ([], [], Continue)"
| "scanItemsArray scan schemaPath index (value # rest) =
     (case UnmarshalJSON value of
        Inl err \<Rightarrow>
          Returns ([], [],
                   Return (Some (SchemaCompilationError
                                   (schemaPath @ ''/items'' @ Itoa (int index)) [])))
      | Inr subSchema \<Rightarrow>
          (case scan (schemaPath @ ''/items'' @ Itoa (int index)) subSchema of
             Panics m \<Rightarrow> Panics m
           | Returns (s', vs, Some err) \<Rightarrow> Returns ([], vs, Return None)
           | Returns (s', vs, None) \<Rightarrow>
               (case scanItemsArray scan schemaPath (Suc index) rest of
                  Panics m \<Rightarrow> Panics m
                | Returns (ss, vs', st) \<Rightarrow> Returns (s' # ss, vs @ vs', st))))"

text \<open>
  The field \<^verbatim>\<open>items\<close>: a single schema (an object or a boolean) or an array of schemas
  is decoded, walked and written back with \<^verbatim>\<open>json.Marshal\<close>; the field keeps its value
  when the step makes \<^verbatim>\<open>scanSchema\<close> return.
\<close>

definition scanItems :: "golib \<Rightarrow> scanner \<Rightarrow> string \<Rightarrow> json option \<Rightarrow> json option step" where
  "scanItems L scan schemaPath field =
     (case field of
        None \<Rightarrow> Returns (None, [], Continue)
      | Some (JArr v) \<Rightarrow>
          (case scanItemsArray scan schemaPath 0 v of
             Panics m \<Rightarrow> Panics m
           | Returns (ss, vs, Continue) \<Rightarrow>
               Returns (Some (JArr (map (marshalSchema L) ss)), vs, Continue)
           | Returns (ss, vs, Return err) \<Rightarrow> Returns (Some (JArr v), vs, Return err))
      | Some items \<Rightarrow>
          if (case items of JObj _ \<Rightarrow> True | JBool _ \<Rightarrow> True | _ \<Rightarrow> False) then
            (case UnmarshalJSON items of
               Inl err \<Rightarrow>
                 Returns (Some items, [],
                          Return (Some (SchemaCompilationError (schemaPath @ ''/items'')
                                          (Error err))))
             | Inr subSchema \<Rightarrow>
                 (case scan (schemaPath @ ''/items'') subSchema of
                    Panics m \<Rightarrow> Panics m
                  | Returns (s', vs, Some err) \<Rightarrow> Returns (Some items, vs, Return (Some err))
                  | Returns (s', vs, None) \<Rightarrow> Returns (Some (marshalSchema L s'), vs, Continue)))
          else Returns (Some items, [], Continue))"

definition set_Items :: "json option \<Rightarrow> JsonSchema \<Rightarrow> JsonSchema" where
  "set_Items v js = set_scalars ((scalars js)\<lparr>Items := v\<rparr>) js"

lemma scanPtr_cong [fundef_cong]:
  "path = path' \<Longrightarrow> child = child' \<Longrightarrow>
   (\<And>s. child' = Some s \<Longrightarrow> scan path' s = scan' path' s) \<Longrightarrow>
   scanPtr scan path child = scanPtr scan' path' child'"
  by (auto simp: scanPtr_def split: option.splits)

lemma scanEntries_eq:
  "(\<And>k s. (k, Some s) \<in> set m \<Longrightarrow> scan (prefix @ k) s = scan' (prefix @ k) s) \<Longrightarrow>
   scanEntries scan prefix m = scanEntries scan' prefix m"
proof (induction m)
  case Nil
  then show ?case by simp
next
  case (Cons p m)
  obtain k c where p: "p = (k, c)" by (cases p)
  have rest: "scanEntries scan prefix m = scanEntries scan' prefix m"
    using Cons.prems by (intro Cons.IH) auto
  show ?case
  proof (cases c)
    case None
    then show ?thesis by (simp add: p)
  next
    case (Some s)
    have "scan (prefix @ k) s = scan' (prefix @ k) s"
      using Cons.prems[of k s] by (simp add: p Some)
    with rest show ?thesis by (simp add: p Some split: outcome.splits option.splits)
  qed
qed

lemma scanMap_cong [fundef_cong]:
  "prefix = prefix' \<Longrightarrow> field = field' \<Longrightarrow>
   (\<And>m k s. field' = Some m \<Longrightarrow> (k, Some s) \<in> set m \<Longrightarrow>
      scan (prefix' @ k) s = scan' (prefix' @ k) s) \<Longrightarrow>
   scanMap scan prefix field = scanMap scan' prefix' field'"
  using scanEntries_eq[of _ scan prefix' scan']
  by (auto simp: scanMap_def split: option.splits)

lemma scanElems_eq:
  "(\<And>p s. Some s \<in> set l \<Longrightarrow> scan p s = scan' p s) \<Longrightarrow>
   scanElems scan prefix index l = scanElems scan' prefix index l"
proof (induction l arbitrary: index)
  case Nil
  then show ?case by simp
next
  case (Cons c l)
  have rest: "scanElems scan prefix (Suc index) l = scanElems scan' prefix (Suc index) l"
    using Cons.prems by (intro Cons.IH) auto
  show ?case
  proof (cases c)
    case None
    then show ?thesis by simp
  next
    case (Some s)
    have "scan (prefix @ Itoa (int index)) s = scan' (prefix @ Itoa (int index)) s"
      using Cons.prems[of s] by (simp add: Some)
    with rest show ?thesis by (simp add: Some split: outcome.splits option.splits)
  qed
qed

lemma scanList_cong [fundef_cong]:
  "prefix = prefix' \<Longrightarrow> field = field' \<Longrightarrow>
   (\<And>l p s. field' = Some l \<Longrightarrow> Some s \<in> set l \<Longrightarrow> scan p s = scan' p s) \<Longrightarrow>
   scanList scan prefix field = scanList scan' prefix' field'"
  using scanElems_eq[of _ scan scan' prefix' 0]
  by (auto simp: scanList_def split: option.splits)

lemma scanDependencyEntries_eq:
  "(\<And>k v s p. (k, Inl (JObj v)) \<in> set m \<Longrightarrow> UnmarshalJSON (JObj v) = Inr s \<Longrightarrow>
      scan p s = scan' p s) \<Longrightarrow>
   scanDependencyEntries scan schemaPath m = scanDependencyEntries scan' schemaPath m"
proof (induction m)
  case Nil
  then show ?case by simp
next
  case (Cons e m)
  obtain k d where e: "e = (k, d)" by (cases e)
  have rest: "scanDependencyEntries scan schemaPath m = scanDependencyEntries scan' schemaPath m"
    using Cons.prems by (intro Cons.IH) auto
  show ?case
  proof (cases "\<exists>v s. d = Inl (JObj v) \<and> UnmarshalJSON (JObj v) = Inr s")
    case True
    then obtain v s where d: "d = Inl (JObj v)" and s: "UnmarshalJSON (JObj v) = Inr s"
      by blast
    have "scan (schemaPath @ ''/dependencies'' @ k) s = scan' (schemaPath @ ''/dependencies'' @ k) s"
      using Cons.prems[of k v s] by (simp add: e d s)
    with rest show ?thesis by (simp add: e d s split: outcome.splits option.splits)
  next
    case False
    with rest show ?thesis
      by (auto simp: e split: sum.splits json.splits outcome.splits)
  qed
qed

lemma scanDependencies_cong [fundef_cong]:
  "schemaPath = schemaPath' \<Longrightarrow> field = field' \<Longrightarrow>
   (\<And>m k v s p. field' = Some m \<Longrightarrow> (k, Inl (JObj v)) \<in> set m \<Longrightarrow>
      UnmarshalJSON (JObj v) = Inr s \<Longrightarrow> scan p s = scan' p s) \<Longrightarrow>
   scanDependencies scan schemaPath field = scanDependencies scan' schemaPath' field'"
  using scanDependencyEntries_eq[of _ scan scan' schemaPath']
  by (auto simp: scanDependencies_def split: option.splits)

lemma scanItemsArray_eq:
  "(\<And>v s p. v \<in> set vs \<Longrightarrow> UnmarshalJSON v = Inr s \<Longrightarrow> scan p s = scan' p s) \<Longrightarrow>
   scanItemsArray scan schemaPath index vs = scanItemsArray scan' schemaPath index vs"
proof (induction vs arbitrary: index)
  case Nil
  then show ?case by simp
next
  case (Cons v vs)
  have rest: "scanItemsArray scan schemaPath (Suc index) vs =
              scanItemsArray scan' schemaPath (Suc index) vs"
    using Cons.prems by (intro Cons.IH) auto
  show ?case
  proof (cases "UnmarshalJSON v")
    case (Inl err)
    then show ?thesis by simp
  next
    case (Inr s)
    have "scan (schemaPath @ ''/items'' @ Itoa (int index)) s =
          scan' (schemaPath @ ''/items'' @ Itoa (int index)) s"
      using Cons.prems[of v s] by (simp add: Inr)
    with rest show ?thesis by (simp add: Inr split: outcome.splits option.splits)
  qed
qed

lemma scanItems_cong [fundef_cong]:
  "schemaPath = schemaPath' \<Longrightarrow> field = field' \<Longrightarrow>
   (\<And>vs v s p. field' = Some (JArr vs) \<Longrightarrow> v \<in> set vs \<Longrightarrow> UnmarshalJSON v = Inr s \<Longrightarrow>
      scan p s = scan' p s) \<Longrightarrow>
   (\<And>v s p. field' = Some v \<Longrightarrow> UnmarshalJSON v = Inr s \<Longrightarrow> scan p s = scan' p s) \<Longrightarrow>
   scanItems L scan schemaPath field = scanItems L scan' schemaPath' field'"
  using scanItemsArray_eq[of _ scan scan' schemaPath' 0]
  by (auto simp: scanItems_def split: option.splits json.splits sum.splits)


lemma sdepth_decoded_dependency:
  "Dependencies js = Some m \<Longrightarrow> (k, Inl j) \<in> set m \<Longrightarrow> UnmarshalJSON j = Inr s \<Longrightarrow>
   sdepth s < sdepth js"
  using sdepth_UnmarshalJSON[of j s] sdepth_dependency[of js m k j] by simp

lemma sdepth_decoded_items:
  "Items (scalars js) = Some j \<Longrightarrow> UnmarshalJSON j = Inr s \<Longrightarrow> sdepth s < sdepth js"
  using sdepth_UnmarshalJSON[of j s] sdepth_items[of js j] by simp

lemma sdepth_decoded_item:
  "Items (scalars js) = Some (JArr vs) \<Longrightarrow> v \<in> set vs \<Longrightarrow> UnmarshalJSON v = Inr s \<Longrightarrow>
   sdepth s < sdepth js"
  using sdepth_UnmarshalJSON[of v s] sdepth_items[of js "JArr vs"] jdepth_elem[of v vs] by simp

text \<open>
  \<^verbatim>\<open>scanSchema\<close>, in the order of the source. Each step reads its field of the node
  the walk was called on: no step changes a field that a later step reads.
\<close>

function scanSchema :: "golib \<Rightarrow> string \<Rightarrow> JsonSchema \<Rightarrow> (JsonSchema \<times> visits \<times> error option) outcome" where
  "scanSchema L schemaPath js =
     (case
        andThen (scanMap (scanSchema L) (schemaPath @ ''/properties/'') (Properties js))
          set_Properties
       (andThen (scanPtr (scanSchema L) (schemaPath @ ''/additionalProperties'')
                   (AdditionalProperties js))
          set_AdditionalProperties
       (andThen (scanPtr (scanSchema L) (schemaPath @ ''/propertyNames'') (PropertyNames js))
          set_PropertyNames
       (andThen (scanDependencies (scanSchema L) schemaPath (Dependencies js))
          set_Dependencies
       (andThen (scanMap (scanSchema L) (schemaPath @ ''/patternProperties/'')
                   (PatternProperties js))
          set_PatternProperties
       (andThen (scanMap (scanSchema L) (schemaPath @ ''/definitions/'') (Definitions js))
          set_Definitions
       (andThen (scanItems L (scanSchema L) schemaPath (Items (scalars js)))
          set_Items
       (andThen (scanPtr (scanSchema L) (schemaPath @ ''/additionalItems'') (AdditionalItems js))
          set_AdditionalItems
       (andThen (scanPtr (scanSchema L) (schemaPath @ ''/contains'') (Contains js))
          set_Contains
       (andThen (scanList (scanSchema L) (schemaPath @ ''/anyOf/'') (AnyOf js))
          set_AnyOf
       (andThen (scanList (scanSchema L) (schemaPath @ ''/allOf/'') (AllOf js))
          set_AllOf
       (andThen (scanList (scanSchema L) (schemaPath @ ''/oneOf/'') (OneOf js))
          set_OneOf
       (andThen (scanPtr (scanSchema L) (schemaPath @ ''/not'') (Not' js))
          set_Not
       (andThen (scanPtr (scanSchema L) (schemaPath @ ''/if'') (If' js))
          set_If
       (andThen (if If' js \<noteq> None
                 then scanPtr (scanSchema L) (schemaPath @ ''/then'') (Then js)
                 else Returns (Then js, [], Continue))
          set_Then
       (andThen (if If' js \<noteq> None
                 then scanPtr (scanSchema L) (schemaPath @ ''/else'') (Else js)
                 else Returns (Else js, [], Continue))
          set_Else
       (\<lambda>js'. Returns (js', [], None)))))))))))))))))
         (connectRelatedKeywords js)
      of
        Panics m \<Rightarrow> Panics m
      | Returns (js', vs, err) \<Rightarrow> Returns (js', (schemaPath, js') # vs, err))"
  by pat_completeness auto

termination
proof (relation "measure (\<lambda>(L, schemaPath, js). sdepth js)")
  show "wf (measure (\<lambda>(L, schemaPath, js). sdepth js))" by simp
qed (auto intro: sdepth_ptr sdepth_entry sdepth_elem sdepth_decoded_dependency
      sdepth_decoded_items sdepth_decoded_item)


declare scanSchema.simps [simp del]

subsection \<open>The registry of root schemas\<close>

definition mapSubSchema ::
  "JsonSchema \<Rightarrow> string \<Rightarrow> string \<Rightarrow> rootSchemaPool \<Rightarrow> rootSchemaPool" where
  "mapSubSchema js schemaPath rootSchemaID pool =
     (if schemaPath \<noteq> [] \<and> rootSchemaID \<noteq> [] then
        (case pool rootSchemaID of
           Some rs \<Rightarrow>
             if subSchemaMap rs schemaPath = None
             then pool(rootSchemaID \<mapsto> rs\<lparr>subSchemaMap := (subSchemaMap rs)(schemaPath \<mapsto> js)\<rparr>)
             else pool
         | None \<Rightarrow> pool)
      else pool)"

fun mapSubSchemas :: "visits \<Rightarrow> string \<Rightarrow> rootSchemaPool \<Rightarrow> rootSchemaPool" where
  "mapSubSchemas [] rootSchemaID pool = pool"
| "mapSubSchemas ((schemaPath, js) # vs) rootSchemaID pool =
     mapSubSchemas vs rootSchemaID (mapSubSchema js schemaPath rootSchemaID pool)"

text \<open>
  \<^verbatim>\<open>NewRootJsonSchema\<close> returns the root (or the error) and leaves the registry changed.
  The root is registered under its id only when the id is not yet a key of the registry;
  the index entries go to whichever root the registry holds under that id.
\<close>

definition NewRootJsonSchema ::
  "golib \<Rightarrow> rootSchemaPool \<Rightarrow> bytes \<Rightarrow> ((error + RootJsonSchema) \<times> rootSchemaPool) outcome" where
  "NewRootJsonSchema L pool bytes =
     (case bytes of
        Inl err \<Rightarrow> Returns (Inl err, pool)
      | Inr JNull \<Rightarrow> Panics nilDereference
      | Inr v \<Rightarrow>
          (case UnmarshalJSON v of
             Inl err \<Rightarrow> Returns (Inl err, pool)
           | Inr js \<Rightarrow>
               (let rootSchemaId = (case Id' (scalars js) of Some i \<Rightarrow> i | None \<Rightarrow> [])
                in case scanSchema L [] js of
                     Panics m \<Rightarrow> Panics m
                   | Returns (js', vs, err) \<Rightarrow>
                       (let rootSchema = \<lparr>JsonSchema = js', subSchemaMap = Map.empty\<rparr>;
                            registered =
                              (if pool rootSchemaId = None then pool(rootSchemaId \<mapsto> rootSchema)
                               else pool);
                            pool' = mapSubSchemas vs rootSchemaId registered
                        in Returns
                             (case err of
                                Some e \<Rightarrow> Inl e
                              | None \<Rightarrow>
                                  Inr (if pool rootSchemaId = None
                                       then (case pool' rootSchemaId of
                                               Some rs \<Rightarrow> rs
                                             | None \<Rightarrow> rootSchema)
                                       else rootSchema),
                              pool')))))"

definition noLibrary :: golib where
  "noLibrary =
     \<lparr>regexpCompile = (\<lambda>p. Some (ErrorString ''no regular expressions'')),
      MatchString = (\<lambda>p s. False),
      ReplaceAllString = (\<lambda>p s r. s),
      timeParse = (\<lambda>s. Some (ErrorString ''no time'')),
      mailParseAddress = (\<lambda>s. Some (ErrorString ''no mail'')),
      netParseIP = (\<lambda>s. False),
      urlParse = (\<lambda>s. Some (ErrorString ''no url'')),
      runes = (\<lambda>s. []),
      FormatFloat = (\<lambda>r. []),
      jsonMarshal = (\<lambda>j. []),
      jsonUnmarshal = (\<lambda>s. Inl (ErrorString ''no json'')),
      base64 = (\<lambda>s. [])\<rparr>"



definition S5 :: json where
  "S5 = JObj [(''items'', JArr [JObj [(''type'', JStr ''string'')],
                               JObj [(''type'', JStr ''number'')]]),
              (''additionalItems'', JObj [(''type'', JStr ''boolean'')])]"

definition compileAndValidate :: "golib \<Rightarrow> nat \<Rightarrow> json \<Rightarrow> json \<Rightarrow> result" where
  "compileAndValidate L n schema instance =
     (case NewRootJsonSchema L Map.empty (Inr schema) of
        Returns (Inr rs, pool) \<Rightarrow> validateBytes L pool n rs (Inr instance)
      | Returns (Inl err, pool) \<Rightarrow> reject err
      | Panics m \<Rightarrow> Some (Panics m))"

section \<open>The claims\<close>

lemmas decode_defs =
  decodeScalars_def checkAnnotations_def bindE_def decodeBool_def decodeString_def
  decodeArray_def decodeRaw_def decodeInt_def decodeFloat_def decodeStringArray_def
  decodeSchemaPtr_def decodeSchemaMap_def decodeSchemaList_def decodeDependencies_def
  emptySchema_def rejectAllSchema_def emptyScalars_def

lemmas scan_defs =
  andThen_def scanPtr_def scanMap_def scanList_def scanDependencies_def scanItems_def
  connectRelatedKeywords_def set_Items_def

lemmas compile_defs =
  NewRootJsonSchema_def mapSubSchema_def compileAndValidate_def validateBytes_def

lemmas validate_defs =
  getNonNilKeywordsSlice_def whenSet_def sibling_def wrapKeywordError_def
  NewJsonPointer_def Evaluate_def evaluateToken_def Atoi_def isDigit_def digitVal_def
  call_def onError_def validateByRef_def


lemmas eval_defs =
  decode_defs scan_defs compile_defs validate_defs UnmarshalJSON.simps scanSchema.simps Let_def
  entry_def nonEmpty_def bytesString_def JInt_def

lemma floor_integral: "(of_int \<lfloor>v\<rfloor> = v) = (v \<in> \<int>)" for v :: rat
  by (auto simp: Ints_def)




fun NewRootJsonSchemas ::
  "golib \<Rightarrow> rootSchemaPool \<Rightarrow> json list \<Rightarrow> (RootJsonSchema list \<times> rootSchemaPool) option" where
  "NewRootJsonSchemas L pool [] = Some ([], pool)"
| "NewRootJsonSchemas L pool (schema # rest) =
     (case NewRootJsonSchema L pool (Inr schema) of
        Returns (Inr rs, pool') \<Rightarrow>
          (case NewRootJsonSchemas L pool' rest of
             Some (rss, pool'') \<Rightarrow> Some (rs # rss, pool'')
           | None \<Rightarrow> None)
      | _ \<Rightarrow> None)"

definition rootB :: json where
  "rootB =
     JObj [(''$id'', JStr ''B''),
           (''definitions'',
            JObj [(''m'', JObj [(''$ref'', JStr ''#/definitions/n'')]),
                  (''n'', JObj [(''type'', JStr ''number'')])])]"

definition rootA :: json where
  "rootA =
     JObj [(''$id'', JStr ''A''),
           (''$ref'', JStr ''B#/definitions/m''),
           (''definitions'', JObj [(''n'', JObj [(''type'', JStr ''string'')])])]"









text \<open>
  C6: compiled in any registry, the schemas {} and true accept every JSON value, and the
  schema false rejects every JSON value, null included.
\<close>

theorem C6_boolean_schemas:
  "(case NewRootJsonSchema L pool0 (Inr (JObj [])) of
      Returns (Inr rs, pool) \<Rightarrow> validateBytes L pool (Suc n) rs (Inr v) = valid
    | _ \<Rightarrow> False)
   \<and> (case NewRootJsonSchema L pool0 (Inr (JBool True)) of
        Returns (Inr rs, pool) \<Rightarrow> validateBytes L pool (Suc n) rs (Inr v) = valid
      | _ \<Rightarrow> False)
   \<and> (case NewRootJsonSchema L pool0 (Inr (JBool False)) of
        Returns (Inr rs, pool) \<Rightarrow>
          validateBytes L pool (Suc n) rs (Inr v) =
            reject (SchemaValidationError []
                      (''json schema '' @ dq @ ''false'' @ dq @ '' drops everything''))
      | _ \<Rightarrow> False)"
  by (simp add: eval_defs)

text \<open>
  C1 (the code departs from the claim): for the schema S5 the instance
  ["x", 1, true, false] is rejected. The loop of \<^verbatim>\<open>additionalItems.validate\<close> counts its
  index from 0 over the tail of the array and validates the element at that index, here
  the string at position 0, against the additionalItems schema. In the same way the schema
  with items [{}] and additionalItems {"type": "boolean"} accepts [true, 5], whose element
  at index 1 is not a boolean.
\<close>

theorem C1_additionalItems_checks_leading_items:
  "compileAndValidate L (Suc (Suc n)) S5 (JArr [JStr ''x'', JNum 1, JBool True, JBool False]) =
     reject (SchemaValidationError []
       (Error (KeywordValidationError ''additionalItems''
          (''item at position 0 failed in validation: '' @
           Error (SchemaValidationError ''/0''
             (Error (KeywordValidationError ''type''
                ''inspected value expected to be a json boolean'')))))))
   \<and> compileAndValidate L (Suc (Suc n))
         (JObj [(''items'', JArr [JObj []]),
                (''additionalItems'', JObj [(''type'', JStr ''boolean'')])])
         (JArr [JBool True, JNum 5]) = valid"
  by (simp add: S5_def eval_defs items_validate_def additionalItems_validate_def
        type_validate_def assertJsonType_def Itoa_def natDigits.simps)

text \<open>
  C8 (the code departs from the claim): \<^verbatim>\<open>contains.validate\<close> returns its error for an
  instance that is not an array, so the schema {"contains": {}} rejects 42; the other
  type-specific keywords return \<^verbatim>\<open>nil\<close> there, as {"minLength": 5} does on 42, true,
  null, [] and {}.
\<close>

theorem C8_contains_rejects_non_arrays:
  "compileAndValidate L (Suc n) (JObj [(''contains'', JObj [])]) (JNum 42) =
     reject (SchemaValidationError []
       (Error (KeywordValidationError ''contains''
          ''could validate any of the inspected array's items against the given schema'')))
   \<and> compileAndValidate L (Suc n) (JObj [(''minLength'', JNum 5)]) (JNum 42) = valid
   \<and> compileAndValidate L (Suc n) (JObj [(''minLength'', JNum 5)]) (JBool True) = valid
   \<and> compileAndValidate L (Suc n) (JObj [(''minLength'', JNum 5)]) JNull = valid
   \<and> compileAndValidate L (Suc n) (JObj [(''minLength'', JNum 5)]) (JArr []) = valid
   \<and> compileAndValidate L (Suc n) (JObj [(''minLength'', JNum 5)]) (JObj []) = valid"
  by (simp add: eval_defs contains_validate_def minLength_validate_def floor_integral)

lemma Split_length: "length (Split s c) = Suc (length (filter (\<lambda>x. x = c) s))"
  by (induction s) (auto split: list.splits)

text \<open>
  C10 (the code departs from the claim): for a reference without the character #,
  \<^verbatim>\<open>strings.Split\<close> returns one piece and \<^verbatim>\<open>validateByRef\<close> reads
  \<^verbatim>\<open>splittedRef[1]\<close>: the run panics with an index out of range, and no error value
  is returned.
\<close>

theorem C10_ref_without_fragment_panics:
  "CHR ''#'' \<notin> set r \<Longrightarrow>
   validateByRef V pool r jsonPath jsonData rootSchemaID = Some (Panics ''index out of range'')"
proof -
  assume "CHR ''#'' \<notin> set r"
  then have "filter (\<lambda>x. x = CHR ''#'') r = []"
    by (auto simp: filter_empty_conv)
  then have "length (Split r (CHR ''#'')) = 1"
    by (simp add: Split_length)
  then show ?thesis
    by (simp add: validateByRef_def)
qed

theorem C10_ref_without_fragment_panics_witness:
  "CHR ''#'' \<notin> set ''definitions/a''
   \<and> validateByRef (validateJsonData noLibrary Map.empty 0) Map.empty ''definitions/a'' []
        (Inr JNull) [] = Some (Panics ''index out of range'')
   \<and> compileAndValidate noLibrary 1 (JObj [(''$ref'', JStr ''definitions/a'')]) JNull =
        Some (Panics ''index out of range'')"
proof -
  have h: "CHR ''#'' \<notin> set ''definitions/a''" by simp
  have c: "compileAndValidate noLibrary 1 (JObj [(''$ref'', JStr ''definitions/a'')]) JNull =
        Some (Panics ''index out of range'')"
    by (simp add: eval_defs)
  show ?thesis
    using h c C10_ref_without_fragment_panics[OF h] by simp
qed

text \<open>
  C2 (the code departs from the claim): root A refers to B#/definitions/m, and that node
  of B holds the reference #/definitions/n. \<^verbatim>\<open>validateByRef\<close> passes the id it was
  called with, A, to the node of B, so the nested reference is resolved in A, where
  /definitions/n is {"type": "string"}, and the instance 1 is rejected; in B the node
  /definitions/n is {"type": "number"}.
\<close>

theorem C2_nested_ref_resolved_in_referencing_root:
  "(case NewRootJsonSchemas L Map.empty [rootB, rootA] of
      Some ([rb, ra], pool) \<Rightarrow>
        validateBytes L pool (Suc (Suc (Suc n))) ra (Inr (JNum 1)) =
          reject (SchemaValidationError []
            (Error (KeywordValidationError ''type''
               ''inspected value expected to be a json string'')))
    | _ \<Rightarrow> False)"
  by (simp add: rootA_def rootB_def eval_defs type_validate_def assertJsonType_def)

subsection \<open>The JSON-Pointer evaluator and the pointer formats\<close>

lemma Split_nonempty: "Split s c \<noteq> []"
  by (induction s) (auto split: list.splits)

text \<open>
  C9 (the code departs from the claim): the relative-json-pointer checker returns
  \<^verbatim>\<open>nil\<close>, that is, accepts, for the strings -1/foo and -1# whose integer prefix is
  negative, where the claim has them rejected with an error.
\<close>

theorem C9_negative_prefix_accepted:
  "IsValidRelJSONPointer ''-1/foo'' = None \<and> IsValidRelJSONPointer ''-1#'' = None"
  by (simp add: IsValidRelJSONPointer_def Atoi_def isDigit_def digitVal_def)

text \<open>
  C4 (the code departs from the claim): on the document [1, 2] the pointers /5 and /-1
  make \<^verbatim>\<open>evaluateToken\<close> read \<^verbatim>\<open>v[5]\<close> and \<^verbatim>\<open>v[-1]\<close>; the run panics with an index
  out of range instead of returning a missing-token error.
\<close>

theorem C4_evaluate_panics_out_of_range:
  "NewJsonPointer ''/5'' = Inr [''5'']
   \<and> Evaluate [''5''] (Inr (JArr [JNum 1, JNum 2])) = Panics ''index out of range''
   \<and> NewJsonPointer ''/-1'' = Inr [''-1'']
   \<and> Evaluate [''-1''] (Inr (JArr [JNum 1, JNum 2])) = Panics ''index out of range''"
  by (simp add: NewJsonPointer_def Evaluate_def evaluateToken_def Atoi_def isDigit_def
      digitVal_def)

subsection \<open>The registry of root schemas\<close>

text \<open>The compile walk leaves the \<^verbatim>\<open>$id\<close> of a node as it was decoded.\<close>

definition keepsId :: "(JsonSchema \<Rightarrow> (JsonSchema \<times> visits \<times> error option) outcome) \<Rightarrow> bool" where
  "keepsId k =
     (\<forall>js js' vs err. k js = Returns (js', vs, err) \<longrightarrow>
        Id' (scalars js') = Id' (scalars js))"

lemma keepsId_andThen:
  assumes "\<And>v js. Id' (scalars (store v js)) = Id' (scalars js)" and "keepsId rest"
  shows "keepsId (andThen step store rest)"
  unfolding keepsId_def
proof (intro allI impI)
  fix js js' vs err
  assume r: "andThen step store rest js = Returns (js', vs, err)"
  show "Id' (scalars js') = Id' (scalars js)"
  proof (cases step)
    case (Panics m)
    with r show ?thesis by (simp add: andThen_def)
  next
    case (Returns t)
    obtain v vs1 st where t: "t = (v, vs1, st)" by (cases t)
    show ?thesis
    proof (cases st)
      case Continue
      with r Returns t obtain vs2 where "rest (store v js) = Returns (js', vs2, err)"
        by (auto simp: andThen_def split: outcome.splits)
      with assms(2) have "Id' (scalars js') = Id' (scalars (store v js))"
        by (simp add: keepsId_def)
      with assms(1) show ?thesis by simp
    next
      case (Return e)
      with r Returns t have "js' = store v js" by (simp add: andThen_def)
      with assms(1) show ?thesis by simp
    qed
  qed
qed

lemma keepsId_done: "keepsId (\<lambda>js'. Returns (js', [], None))"
  by (simp add: keepsId_def)

lemma Id_setters [simp]:
  "Id' (scalars (set_Definitions a js)) = Id' (scalars js)"
  "Id' (scalars (set_Properties a js)) = Id' (scalars js)"
  "Id' (scalars (set_AdditionalProperties b js)) = Id' (scalars js)"
  "Id' (scalars (set_PropertyNames b js)) = Id' (scalars js)"
  "Id' (scalars (set_Dependencies c js)) = Id' (scalars js)"
  "Id' (scalars (set_PatternProperties a js)) = Id' (scalars js)"
  "Id' (scalars (set_Contains b js)) = Id' (scalars js)"
  "Id' (scalars (set_AdditionalItems b js)) = Id' (scalars js)"
  "Id' (scalars (set_AnyOf d js)) = Id' (scalars js)"
  "Id' (scalars (set_AllOf d js)) = Id' (scalars js)"
  "Id' (scalars (set_OneOf d js)) = Id' (scalars js)"
  "Id' (scalars (set_Not b js)) = Id' (scalars js)"
  "Id' (scalars (set_If b js)) = Id' (scalars js)"
  "Id' (scalars (set_Then b js)) = Id' (scalars js)"
  "Id' (scalars (set_Else b js)) = Id' (scalars js)"
  "Id' (scalars (set_connected e js)) = Id' (scalars js)"
  "Id' (scalars (set_Items f js)) = Id' (scalars js)"
  by (cases js; simp add: set_Items_def)+

lemma scanSchema_Id:
  "scanSchema L schemaPath js = Returns (js', vs, err) \<Longrightarrow> Id' (scalars js') = Id' (scalars js)"
proof -
  assume r: "scanSchema L schemaPath js = Returns (js', vs, err)"
  let ?chain =
       "andThen (scanMap (scanSchema L) (schemaPath @ ''/properties/'') (Properties js))
          set_Properties
       (andThen (scanPtr (scanSchema L) (schemaPath @ ''/additionalProperties'')
                   (AdditionalProperties js))
          set_AdditionalProperties
       (andThen (scanPtr (scanSchema L) (schemaPath @ ''/propertyNames'') (PropertyNames js))
          set_PropertyNames
       (andThen (scanDependencies (scanSchema L) schemaPath (Dependencies js))
          set_Dependencies
       (andThen (scanMap (scanSchema L) (schemaPath @ ''/patternProperties/'')
                   (PatternProperties js))
          set_PatternProperties
       (andThen (scanMap (scanSchema L) (schemaPath @ ''/definitions/'') (Definitions js))
          set_Definitions
       (andThen (scanItems L (scanSchema L) schemaPath (Items (scalars js)))
          set_Items
       (andThen (scanPtr (scanSchema L) (schemaPath @ ''/additionalItems'') (AdditionalItems js))
          set_AdditionalItems
       (andThen (scanPtr (scanSchema L) (schemaPath @ ''/contains'') (Contains js))
          set_Contains
       (andThen (scanList (scanSchema L) (schemaPath @ ''/anyOf/'') (AnyOf js))
          set_AnyOf
       (andThen (scanList (scanSchema L) (schemaPath @ ''/allOf/'') (AllOf js))
          set_AllOf
       (andThen (scanList (scanSchema L) (schemaPath @ ''/oneOf/'') (OneOf js))
          set_OneOf
       (andThen (scanPtr (scanSchema L) (schemaPath @ ''/not'') (Not' js))
          set_Not
       (andThen (scanPtr (scanSchema L) (schemaPath @ ''/if'') (If' js))
          set_If
       (andThen (if If' js \<noteq> None
                 then scanPtr (scanSchema L) (schemaPath @ ''/then'') (Then js)
                 else Returns (Then js, [], Continue))
          set_Then
       (andThen (if If' js \<noteq> None
                 then scanPtr (scanSchema L) (schemaPath @ ''/else'') (Else js)
                 else Returns (Else js, [], Continue))
          set_Else
       (\<lambda>js'. Returns (js', [], None)))))))))))))))))"
  have k: "keepsId ?chain"
    by (intro keepsId_andThen keepsId_done Id_setters)
  from r obtain vs' where "?chain (connectRelatedKeywords js) = Returns (js', vs', err)"
    by (subst (asm) scanSchema.simps) (auto split: outcome.splits)
  with k have "Id' (scalars js') = Id' (scalars (connectRelatedKeywords js))"
    unfolding keepsId_def by blast
  then show ?thesis by (simp add: connectRelatedKeywords_def)
qed

lemma mapSubSchemas_no_id [simp]: "mapSubSchemas vs [] pool = pool"
  by (induction vs arbitrary: pool) (auto simp: mapSubSchema_def)

lemma NewRootJsonSchema_Inr:
  "v \<noteq> JNull \<Longrightarrow>
   NewRootJsonSchema L pool (Inr v) =
     (case UnmarshalJSON v of
        Inl err \<Rightarrow> Returns (Inl err, pool)
      | Inr js \<Rightarrow>
          (let rootSchemaId = (case Id' (scalars js) of Some i \<Rightarrow> i | None \<Rightarrow> [])
           in case scanSchema L [] js of
                Panics m \<Rightarrow> Panics m
              | Returns (js', vs, err) \<Rightarrow>
                  (let rootSchema = \<lparr>JsonSchema = js', subSchemaMap = Map.empty\<rparr>;
                       registered =
                         (if pool rootSchemaId = None then pool(rootSchemaId \<mapsto> rootSchema)
                          else pool);
                       pool' = mapSubSchemas vs rootSchemaId registered
                   in Returns
                        (case err of
                           Some e \<Rightarrow> Inl e
                         | None \<Rightarrow>
                             Inr (if pool rootSchemaId = None
                                  then (case pool' rootSchemaId of
                                          Some rs \<Rightarrow> rs
                                        | None \<Rightarrow> rootSchema)
                                  else rootSchema),
                         pool'))))"
  by (cases v) (simp_all add: NewRootJsonSchema_def)

lemma NewRootJsonSchema_succeeds:
  assumes "NewRootJsonSchema L pool b = Returns (Inr rs, pool')"
  shows "\<exists>v js js' vs.
           b = Inr v \<and> UnmarshalJSON v = Inr js \<and>
           scanSchema L [] js = Returns (js', vs, None) \<and>
           pool' = mapSubSchemas vs (case Id' (scalars js) of Some i \<Rightarrow> i | None \<Rightarrow> [])
                     (if pool (case Id' (scalars js) of Some i \<Rightarrow> i | None \<Rightarrow> []) = None
                      then pool((case Id' (scalars js) of Some i \<Rightarrow> i | None \<Rightarrow> []) \<mapsto>
                                  \<lparr>JsonSchema = js', subSchemaMap = Map.empty\<rparr>)
                      else pool) \<and>
           rs = (if pool (case Id' (scalars js) of Some i \<Rightarrow> i | None \<Rightarrow> []) = None
                 then (case pool' (case Id' (scalars js) of Some i \<Rightarrow> i | None \<Rightarrow> []) of
                         Some r \<Rightarrow> r
                       | None \<Rightarrow> \<lparr>JsonSchema = js', subSchemaMap = Map.empty\<rparr>)
                 else \<lparr>JsonSchema = js', subSchemaMap = Map.empty\<rparr>)"
proof -
  from assms obtain v where b: "b = Inr v"
    by (cases b) (auto simp: NewRootJsonSchema_def)
  from assms b have v: "v \<noteq> JNull"
    by (auto simp: NewRootJsonSchema_def)
  from assms show ?thesis
    unfolding b NewRootJsonSchema_Inr[OF v]
    by (auto simp: Let_def split: sum.splits outcome.splits option.splits if_splits)
qed

lemma mapSubSchemas_keeps_root:
  "pool i = Some r0 \<Longrightarrow>
   \<exists>r1. mapSubSchemas vs i pool i = Some r1 \<and> JsonSchema r1 = JsonSchema r0"
proof (induction vs arbitrary: pool r0)
  case Nil
  then show ?case by simp
next
  case (Cons a vs)
  obtain q n where a: "a = (q, n)" by (cases a)
  have "\<exists>r1. mapSubSchema n q i pool i = Some r1 \<and> JsonSchema r1 = JsonSchema r0"
    using Cons.prems by (auto simp: mapSubSchema_def)
  then obtain r1 where 1: "mapSubSchema n q i pool i = Some r1" and 2: "JsonSchema r1 = JsonSchema r0"
    by blast
  from Cons.IH[of "mapSubSchema n q i pool" r1, OF 1] 2 show ?case by (simp add: a)
qed

lemma NewRootJsonSchema_anonymous:
  assumes "NewRootJsonSchema L pool b = Returns (Inr rs, pool')"
    and "Id' (scalars (JsonSchema rs)) = None"
  shows "pool' [] = (case pool [] of None \<Rightarrow> Some rs | Some r \<Rightarrow> Some r)"
proof -
  let ?idOf = "\<lambda>js. case Id' (scalars js) of Some i \<Rightarrow> i | None \<Rightarrow> []"
  from NewRootJsonSchema_succeeds[OF assms(1)] obtain v js js' vs where
    s: "scanSchema L [] js = Returns (js', vs, None)"
    and res: "pool' = mapSubSchemas vs (?idOf js)
                     (if pool (?idOf js) = None
                      then pool(?idOf js \<mapsto> \<lparr>JsonSchema = js', subSchemaMap = Map.empty\<rparr>)
                      else pool)"
    and rs: "rs = (if pool (?idOf js) = None
                 then (case pool' (?idOf js) of
                         Some r \<Rightarrow> r
                       | None \<Rightarrow> \<lparr>JsonSchema = js', subSchemaMap = Map.empty\<rparr>)
                 else \<lparr>JsonSchema = js', subSchemaMap = Map.empty\<rparr>)"
    by blast
  let ?root = "\<lparr>JsonSchema = js', subSchemaMap = Map.empty\<rparr>"
  have js': "JsonSchema rs = js'"
  proof (cases "pool (?idOf js) = None")
    case False
    with rs show ?thesis by simp
  next
    case True
    have "(pool(?idOf js \<mapsto> ?root)) (?idOf js) = Some ?root" by simp
    from mapSubSchemas_keeps_root[of "pool(?idOf js \<mapsto> ?root)" "?idOf js" ?root vs, OF this]
      True res
    obtain r1 where "pool' (?idOf js) = Some r1" "JsonSchema r1 = js'" by auto
    with True rs show ?thesis by simp
  qed
  from scanSchema_Id[OF s] js' assms(2) have "Id' (scalars js) = None" by simp
  with res rs show ?thesis by (auto split: option.splits)
qed

definition registeredSchema ::
  "(RootJsonSchema list \<times> rootSchemaPool) option \<Rightarrow> string \<Rightarrow> JsonSchema option" where
  "registeredSchema compiled i =
     (case compiled of
        Some (rss, pool) \<Rightarrow> map_option JsonSchema (pool i)
      | None \<Rightarrow> None)"

text \<open>
  C5 (counterexample): after compiling true and then false, neither with an \<^verbatim>\<open>$id\<close>,
  the registry entry under the empty key is the node of the first root, which accepts
  everything, and not the rejectAll node of the root registered last.
\<close>

theorem C5_last_write_counterexample:
  "registeredSchema (NewRootJsonSchemas noLibrary Map.empty [JBool True, JBool False]) [] =
     Some (set_connected True emptySchema)
   \<and> registeredSchema (NewRootJsonSchemas noLibrary Map.empty [JBool True, JBool False]) [] \<noteq>
     Some (set_connected True rejectAllSchema)
   \<and> registeredSchema (NewRootJsonSchemas noLibrary Map.empty [JBool False]) [] =
     Some (set_connected True rejectAllSchema)"
  by (simp add: registeredSchema_def eval_defs)

text \<open>
  C5 (amended): when two root schemas without \<^verbatim>\<open>$id\<close> are compiled one after the
  other and the registry held no entry under the empty key before, the entry under the
  empty key afterwards is the root registered first: \<^verbatim>\<open>NewRootJsonSchema\<close> stores a
  root only under a key the registry does not have yet, so the second registration does
  not replace the first.
\<close>

theorem C5_first_anonymous_root_wins:
  assumes "NewRootJsonSchema L pool0 b1 = Returns (Inr r1, pool1)"
    and "NewRootJsonSchema L pool1 b2 = Returns (Inr r2, pool2)"
    and "Id' (scalars (JsonSchema r1)) = None"
    and "Id' (scalars (JsonSchema r2)) = None"
    and "pool0 [] = None"
  shows "pool1 [] = Some r1 \<and> pool2 [] = Some r1"
proof -
  have 1: "pool1 [] = Some r1"
    using NewRootJsonSchema_anonymous[OF assms(1,3)] assms(5) by simp
  have 2: "pool2 [] = Some r1"
    using NewRootJsonSchema_anonymous[OF assms(2,4)] 1 by simp
  from 1 2 show ?thesis by simp
qed

theorem C5_first_anonymous_root_wins_witness:
  "(case NewRootJsonSchema noLibrary Map.empty (Inr (JBool True)) of
      Returns (Inr r1, pool1) \<Rightarrow>
        (case NewRootJsonSchema noLibrary pool1 (Inr (JBool False)) of
           Returns (Inr r2, pool2) \<Rightarrow>
             Id' (scalars (JsonSchema r1)) = None \<and> Id' (scalars (JsonSchema r2)) = None \<and>
             pool1 [] = Some r1 \<and> pool2 [] = Some r1 \<and> JsonSchema r2 \<noteq> JsonSchema r1
         | _ \<Rightarrow> False)
    | _ \<Rightarrow> False)"
proof -
  have "\<exists>r1 pool1. NewRootJsonSchema noLibrary Map.empty (Inr (JBool True)) = Returns (Inr r1, pool1)
          \<and> Id' (scalars (JsonSchema r1)) = None \<and> JsonSchema r1 = set_connected True emptySchema"
    by (simp add: eval_defs)
  then obtain r1 pool1 where
    c1: "NewRootJsonSchema noLibrary Map.empty (Inr (JBool True)) = Returns (Inr r1, pool1)"
    and i1: "Id' (scalars (JsonSchema r1)) = None"
    and j1: "JsonSchema r1 = set_connected True emptySchema" by blast
  have "\<exists>r2 pool2. NewRootJsonSchema noLibrary pool1 (Inr (JBool False)) = Returns (Inr r2, pool2)
          \<and> Id' (scalars (JsonSchema r2)) = None \<and> JsonSchema r2 = set_connected True rejectAllSchema"
    by (simp add: eval_defs)
  then obtain r2 pool2 where
    c2: "NewRootJsonSchema noLibrary pool1 (Inr (JBool False)) = Returns (Inr r2, pool2)"
    and i2: "Id' (scalars (JsonSchema r2)) = None"
    and j2: "JsonSchema r2 = set_connected True rejectAllSchema" by blast
  have ne: "JsonSchema r2 \<noteq> JsonSchema r1"
    by (simp add: j1 j2 emptySchema_def rejectAllSchema_def emptyScalars_def)
  have e: "Map.empty [] = (None :: RootJsonSchema option)" by simp
  from C5_first_anonymous_root_wins[OF c1 c2 i1 i2 e] i1 i2 ne show ?thesis
    by (simp add: c1 c2)
qed

end
